theory Spec2Isabelle
  imports Complex_Main
begin

section \<open>JavaScript numbers\<close>

text \<open>
  Every quantity of the calculator is a JavaScript number. A finite number is modelled by
  the real it denotes (\<open>Fin\<close>); the three non-finite values are kept, because the
  program can produce them by dividing by zero and by reading a string. Reading a number
  from a string rounds to the nearest double (\<open>to_double\<close> below). The arithmetic
  operations are exact: their rounding and the overflow of a huge finite result are
  abstracted away. \<open>Fin 0\<close> stands for both zeros; in a division by it, it is the
  positive one: \<open>x / 0\<close> has the sign of \<open>x\<close>.
\<close>

datatype jsnum = Fin real | PosInf | NegInf | NaN

fun js_neg :: "jsnum \<Rightarrow> jsnum" where
  "js_neg (Fin a) = Fin (- a)"
| "js_neg PosInf = NegInf"
| "js_neg NegInf = PosInf"
| "js_neg NaN = NaN"

fun js_add :: "jsnum \<Rightarrow> jsnum \<Rightarrow> jsnum" where
  "js_add (Fin a) (Fin b) = Fin (a + b)"
| "js_add NaN _ = NaN"
| "js_add _ NaN = NaN"
| "js_add PosInf NegInf = NaN"
| "js_add NegInf PosInf = NaN"
| "js_add PosInf _ = PosInf"
| "js_add _ PosInf = PosInf"
| "js_add NegInf _ = NegInf"
| "js_add _ NegInf = NegInf"

definition js_sub :: "jsnum \<Rightarrow> jsnum \<Rightarrow> jsnum" where
  "js_sub x y = js_add x (js_neg y)"

fun js_mul :: "jsnum \<Rightarrow> jsnum \<Rightarrow> jsnum" where
  "js_mul (Fin a) (Fin b) = Fin (a * b)"
| "js_mul NaN _ = NaN"
| "js_mul _ NaN = NaN"
| "js_mul PosInf (Fin b) = (if b = 0 then NaN else if 0 < b then PosInf else NegInf)"
| "js_mul NegInf (Fin b) = (if b = 0 then NaN else if 0 < b then NegInf else PosInf)"
| "js_mul (Fin a) PosInf = (if a = 0 then NaN else if 0 < a then PosInf else NegInf)"
| "js_mul (Fin a) NegInf = (if a = 0 then NaN else if 0 < a then NegInf else PosInf)"
| "js_mul PosInf PosInf = PosInf"
| "js_mul NegInf NegInf = PosInf"
| "js_mul PosInf NegInf = NegInf"
| "js_mul NegInf PosInf = NegInf"

fun js_div :: "jsnum \<Rightarrow> jsnum \<Rightarrow> jsnum" where
  "js_div (Fin a) (Fin b) =
     (if b = 0 then (if a = 0 then NaN else if 0 < a then PosInf else NegInf)
      else Fin (a / b))"
| "js_div NaN _ = NaN"
| "js_div _ NaN = NaN"
| "js_div (Fin a) PosInf = Fin 0"
| "js_div (Fin a) NegInf = Fin 0"
| "js_div PosInf (Fin b) = (if 0 \<le> b then PosInf else NegInf)"
| "js_div NegInf (Fin b) = (if 0 \<le> b then NegInf else PosInf)"
| "js_div PosInf _ = NaN"
| "js_div NegInf _ = NaN"

text \<open>The comparisons \<open><\<close>, \<open>>\<close>, \<open>>=\<close> and \<open>===\<close> on numbers: all false on \<open>NaN\<close>.\<close>

fun js_lt :: "jsnum \<Rightarrow> jsnum \<Rightarrow> bool" where
  "js_lt (Fin a) (Fin b) = (a < b)"
| "js_lt NaN _ = False"
| "js_lt _ NaN = False"
| "js_lt _ NegInf = False"
| "js_lt PosInf _ = False"
| "js_lt NegInf _ = True"
| "js_lt _ PosInf = True"

definition js_gt :: "jsnum \<Rightarrow> jsnum \<Rightarrow> bool" where
  "js_gt x y = js_lt y x"

fun js_seq :: "jsnum \<Rightarrow> jsnum \<Rightarrow> bool" where
  "js_seq NaN _ = False"
| "js_seq _ NaN = False"
| "js_seq x y = (x = y)"

definition js_ge :: "jsnum \<Rightarrow> jsnum \<Rightarrow> bool" where
  "js_ge x y = (js_lt y x \<or> js_seq x y)"

text \<open>\<open>Math.ceil\<close>, \<open>isNaN\<close> on a number, \<open>Number.isInteger\<close> on a number.\<close>

fun js_ceil :: "jsnum \<Rightarrow> jsnum" where
  "js_ceil (Fin a) = Fin (of_int \<lceil>a\<rceil>)"
| "js_ceil x = x"

fun js_isNaN :: "jsnum \<Rightarrow> bool" where
  "js_isNaN NaN = True"
| "js_isNaN _ = False"

fun js_isInteger :: "jsnum \<Rightarrow> bool" where
  "js_isInteger (Fin a) = (of_int \<lfloor>a\<rfloor> = a)"
| "js_isInteger _ = False"

fun is_Fin :: "jsnum \<Rightarrow> bool" where
  "is_Fin (Fin a) = True"
| "is_Fin _ = False"

subsection \<open>The nearest double\<close>

text \<open>
  The Number value for the fraction \<open>p / q\<close>: the nearest multiple of the spacing of the
  doubles around it, ties going to the even multiple (\<open>nearest_multiple p q t\<close> is the
  nearest multiple of \<open>2 ^ t\<close>). The spacing is \<open>2 ^ (e - 52)\<close> for the binary exponent
  \<open>e\<close> of the fraction, and \<open>2 ^ (- 1074)\<close> below the normal range, where a fraction can
  round to zero. A result of \<open>2 ^ 1024\<close> is \<open>Infinity\<close>.
\<close>

fun bits :: "nat \<Rightarrow> nat" where
  "bits n = (if n = 0 then 0 else 1 + bits (n div 2))"

declare bits.simps [simp del]

definition round_half_even :: "nat \<Rightarrow> nat \<Rightarrow> nat" where
  "round_half_even num den =
     (let n = num div den; r = num mod den
      in if 2 * r < den then n
         else if den < 2 * r then n + 1
         else if even n then n else n + 1)"

definition binary_exponent :: "nat \<Rightarrow> nat \<Rightarrow> int" where
  "binary_exponent p q =
     (let e = int (bits p) - int (bits q)
      in if (if 0 \<le> e then q * 2 ^ nat e \<le> p else q \<le> p * 2 ^ nat (- e)) then e
         else e - 1)"

definition nearest_multiple :: "nat \<Rightarrow> nat \<Rightarrow> int \<Rightarrow> real" where
  "nearest_multiple p q t =
     (if 0 \<le> t then real (round_half_even p (q * 2 ^ nat t)) * 2 ^ nat t
      else real (round_half_even (p * 2 ^ nat (- t)) q) / 2 ^ nat (- t))"

definition to_double :: "nat \<Rightarrow> nat \<Rightarrow> jsnum" where
  "to_double p q =
     (if p = 0 then Fin 0
      else let v = nearest_multiple p q (max (binary_exponent p q) (- 1022) - 52)
           in if 2 ^ 1024 \<le> v then PosInf else Fin v)"

text \<open>The Number value for \<open>m\<close> times ten to the power \<open>e\<close>.\<close>

definition decimal_to_double :: "nat \<Rightarrow> int \<Rightarrow> jsnum" where
  "decimal_to_double m e =
     (if 0 \<le> e then to_double (m * 10 ^ nat e) 1 else to_double m (10 ^ nat (- e)))"

section \<open>The calculation engine (formulas.js)\<close>

text \<open>The typedef \<open>CalculatorInputs\<close> of formulas.js and state.js.\<close>

record CalculatorInputs =
  vehicleCount :: jsnum
  annualKmPerVehicle :: jsnum
  fuelConsumptionLPer100km :: jsnum
  fuelPricePerLitre :: jsnum
  baselineAccidentsPerYear :: jsnum
  avgAccidentCost :: jsnum
  annualInsurancePremium :: jsnum
  fuelSavingsPct :: jsnum
  accidentReductionPct :: jsnum
  insuranceReductionPct :: jsnum
  adoptionPct :: jsnum
  hardwareCostPerVehicle :: jsnum
  subscriptionPerVehiclePerMonth :: jsnum
  implementationOneOff :: jsnum
  trainingOneOff :: jsnum
  timeHorizonYears :: jsnum
  discountRatePct :: jsnum
  currency :: string
  startMonth :: string
  utilisationRampMonths :: jsnum
  resaleRecoveryPctHardware :: jsnum
  maintenancePerVehiclePerYear :: jsnum

definition calculateBaselineFuelCost :: "CalculatorInputs \<Rightarrow> jsnum" where
  "calculateBaselineFuelCost inputs =
     (let baselineLitres =
        js_mul (js_mul (vehicleCount inputs) (annualKmPerVehicle inputs))
               (js_div (fuelConsumptionLPer100km inputs) (Fin 100))
      in js_mul baselineLitres (fuelPricePerLitre inputs))"

definition calculateFuelSavings :: "CalculatorInputs \<Rightarrow> jsnum \<Rightarrow> jsnum" where
  "calculateFuelSavings inputs baselineFuelCost =
     js_mul (js_mul baselineFuelCost (js_div (fuelSavingsPct inputs) (Fin 100)))
            (js_div (adoptionPct inputs) (Fin 100))"

definition calculateAccidentSavings :: "CalculatorInputs \<Rightarrow> jsnum" where
  "calculateAccidentSavings inputs =
     (let accidentsAvoided =
        js_mul (js_mul (baselineAccidentsPerYear inputs)
                       (js_div (accidentReductionPct inputs) (Fin 100)))
               (js_div (adoptionPct inputs) (Fin 100))
      in js_mul accidentsAvoided (avgAccidentCost inputs))"

definition calculateInsuranceSavings :: "CalculatorInputs \<Rightarrow> jsnum" where
  "calculateInsuranceSavings inputs =
     js_mul (js_mul (annualInsurancePremium inputs)
                    (js_div (insuranceReductionPct inputs) (Fin 100)))
            (js_div (adoptionPct inputs) (Fin 100))"

definition calculateTotalSavings :: "jsnum \<Rightarrow> jsnum \<Rightarrow> jsnum \<Rightarrow> jsnum" where
  "calculateTotalSavings fuelSavings accidentSavings insuranceSavings =
     js_add (js_add fuelSavings accidentSavings) insuranceSavings"

record ProgramCosts =
  capexHardware :: jsnum
  opexSubscriptionAnnual :: jsnum
  oneOff :: jsnum
  maintenanceAnnual :: jsnum

definition calculateProgramCosts :: "CalculatorInputs \<Rightarrow> ProgramCosts" where
  "calculateProgramCosts inputs =
     \<lparr> capexHardware = js_mul (vehicleCount inputs) (hardwareCostPerVehicle inputs),
       opexSubscriptionAnnual =
         js_mul (js_mul (vehicleCount inputs) (subscriptionPerVehiclePerMonth inputs)) (Fin 12),
       oneOff = js_add (implementationOneOff inputs) (trainingOneOff inputs),
       maintenanceAnnual = js_mul (vehicleCount inputs) (maintenancePerVehiclePerYear inputs) \<rparr>"

subsection \<open>The timeline loop\<close>

text \<open>
  The five arrays of \<open>calculateTimeline\<close> and the running \<open>cumulativeNet\<close>. The loop
  also builds a \<open>Date\<close> for each month from \<open>startMonth\<close>; nothing reads it, and it is
  left out.
\<close>

record Timeline =
  months :: "jsnum list"
  savingsMonthly :: "jsnum list"
  costsMonthly :: "jsnum list"
  netMonthly :: "jsnum list"
  cumNetMonthly :: "jsnum list"

definition rampFactor :: "nat \<Rightarrow> jsnum \<Rightarrow> jsnum" where
  "rampFactor i ramp =
     (if js_lt (Fin (real i)) ramp then js_div (Fin (real i + 1)) ramp else Fin 1)"

definition monthlySavings :: "jsnum \<Rightarrow> nat \<Rightarrow> jsnum \<Rightarrow> jsnum" where
  "monthlySavings totalSavingsAnnual i ramp =
     js_mul (js_div totalSavingsAnnual (Fin 12)) (rampFactor i ramp)"

definition monthlyCosts :: "CalculatorInputs \<Rightarrow> ProgramCosts \<Rightarrow> jsnum \<Rightarrow> nat \<Rightarrow> jsnum" where
  "monthlyCosts inputs costs totalMonths i =
     (let c0 = js_add (js_div (opexSubscriptionAnnual costs) (Fin 12))
                      (js_div (maintenanceAnnual costs) (Fin 12));
          c1 = (if i = 0 then js_add c0 (js_add (capexHardware costs) (oneOff costs)) else c0)
      in if js_seq (Fin (real i)) (js_sub totalMonths (Fin 1))
            \<and> js_gt (resaleRecoveryPctHardware inputs) (Fin 0)
         then js_sub c1 (js_mul (capexHardware costs)
                                (js_div (resaleRecoveryPctHardware inputs) (Fin 100)))
         else c1)"

text \<open>One pass through the loop body at index \<open>i\<close>: five pushes and the accumulator.\<close>

definition timeline_body ::
  "CalculatorInputs \<Rightarrow> jsnum \<Rightarrow> ProgramCosts \<Rightarrow> jsnum \<Rightarrow> nat \<Rightarrow> Timeline \<times> jsnum
     \<Rightarrow> Timeline \<times> jsnum" where
  "timeline_body inputs totalSavingsAnnual costs totalMonths i st =
     (let t = fst st; cumulativeNet = snd st;
          s = monthlySavings totalSavingsAnnual i (utilisationRampMonths inputs);
          c = monthlyCosts inputs costs totalMonths i;
          netFlow = js_sub s c;
          cumulativeNet' = js_add cumulativeNet netFlow
      in (\<lparr> months = months t @ [Fin (real i + 1)],
             savingsMonthly = savingsMonthly t @ [s],
             costsMonthly = costsMonthly t @ [c],
             netMonthly = netMonthly t @ [netFlow],
             cumNetMonthly = cumNetMonthly t @ [cumulativeNet'] \<rparr>, cumulativeNet'))"

text \<open>
  \<open>for (let i = 0; i < totalMonths; i++)\<close>. The bound is a number computed from the
  inputs; when it is \<open>Infinity\<close> the loop never exits, which is the value \<open>None\<close>.
\<close>

partial_function (option) timeline_loop ::
  "CalculatorInputs \<Rightarrow> jsnum \<Rightarrow> ProgramCosts \<Rightarrow> jsnum \<Rightarrow> nat \<Rightarrow> Timeline \<times> jsnum
     \<Rightarrow> (Timeline \<times> jsnum) option" where
  "timeline_loop inputs totalSavingsAnnual costs totalMonths i st =
     (if js_lt (Fin (real i)) totalMonths
      then timeline_loop inputs totalSavingsAnnual costs totalMonths (Suc i)
             (timeline_body inputs totalSavingsAnnual costs totalMonths i st)
      else Some st)"

definition empty_timeline :: Timeline where
  "empty_timeline =
     \<lparr> months = [], savingsMonthly = [], costsMonthly = [], netMonthly = [],
       cumNetMonthly = [] \<rparr>"

definition calculateTimeline ::
  "CalculatorInputs \<Rightarrow> jsnum \<Rightarrow> ProgramCosts \<Rightarrow> Timeline option" where
  "calculateTimeline inputs totalSavingsAnnual costs =
     (let totalMonths = js_mul (timeHorizonYears inputs) (Fin 12)
      in map_option fst
           (timeline_loop inputs totalSavingsAnnual costs totalMonths 0
              (empty_timeline, Fin 0)))"

subsection \<open>Payback and ROI\<close>

function payback_loop :: "jsnum list \<Rightarrow> nat \<Rightarrow> nat" where
  "payback_loop cumNet i =
     (if i < length cumNet
      then (if js_ge (cumNet ! i) (Fin 0) then i + 1 else payback_loop cumNet (Suc i))
      else length cumNet)"
  by pat_completeness auto
termination
  by (relation "measure (\<lambda>(cumNet, i). length cumNet - i)") auto

declare payback_loop.simps [simp del]

definition calculatePayback :: "jsnum list \<Rightarrow> nat" where
  "calculatePayback cumNet = payback_loop cumNet 0"

definition calculateSimpleROI :: "jsnum \<Rightarrow> jsnum \<Rightarrow> jsnum" where
  "calculateSimpleROI totalSavings totalCosts =
     (if js_seq totalCosts (Fin 0) then Fin 0
      else js_mul (js_div (js_sub totalSavings totalCosts) totalCosts) (Fin 100))"

record CalculationOutputs = ProgramCosts +
  baselineFuelCost :: jsnum
  fuelSavingsAnnual :: jsnum
  accidentSavingsAnnual :: jsnum
  insuranceSavingsAnnual :: jsnum
  totalSavingsAnnual :: jsnum
  timeline :: Timeline
  paybackMonths :: nat
  roiSimplePct :: jsnum

definition totalCostsOf :: "ProgramCosts \<Rightarrow> jsnum \<Rightarrow> jsnum" where
  "totalCostsOf costs years =
     js_add (js_add (capexHardware costs) (oneOff costs))
            (js_mul (js_add (opexSubscriptionAnnual costs) (maintenanceAnnual costs)) years)"

definition calculateROI :: "CalculatorInputs \<Rightarrow> CalculationOutputs option" where
  "calculateROI inputs =
     (let bfc = calculateBaselineFuelCost inputs;
          fs = calculateFuelSavings inputs bfc;
          acs = calculateAccidentSavings inputs;
          ins = calculateInsuranceSavings inputs;
          tsa = calculateTotalSavings fs acs ins;
          costs = calculateProgramCosts inputs
      in case calculateTimeline inputs tsa costs of
           None \<Rightarrow> None
         | Some tline \<Rightarrow>
             (let pb = calculatePayback (cumNetMonthly tline);
                  totalCosts = totalCostsOf costs (timeHorizonYears inputs);
                  totalSavings = js_mul tsa (timeHorizonYears inputs)
              in Some (ProgramCosts.extend costs
                   (CalculationOutputs.fields bfc fs acs ins tsa tline pb
                      (calculateSimpleROI totalSavings totalCosts)))))"

subsection \<open>Scenario adjustment\<close>

text \<open>
  \<open>applyScenario\<close> copies its argument into a fresh object and updates the copy. The
  store is the list of the objects allocated so far, an object's address is its index,
  and the spread \<open>{ ...inputs }\<close> allocates the next index. The three \<open>*=\<close> statements
  of a branch touch three different fields of the copy.
\<close>

definition scale3 :: "jsnum \<Rightarrow> CalculatorInputs \<Rightarrow> CalculatorInputs" where
  "scale3 k obj =
     obj\<lparr> fuelSavingsPct := js_mul (fuelSavingsPct obj) k,
          accidentReductionPct := js_mul (accidentReductionPct obj) k,
          insuranceReductionPct := js_mul (insuranceReductionPct obj) k \<rparr>"

definition applyScenario_store ::
  "CalculatorInputs list \<Rightarrow> nat \<Rightarrow> string \<Rightarrow> CalculatorInputs list \<times> nat" where
  "applyScenario_store store inputs scenario =
     (let modifiedInputs = length store;
          store1 = store @ [store ! inputs];
          store2 =
            (if scenario = ''conservative''
             then store1[modifiedInputs := scale3 (Fin 0.75) (store1 ! modifiedInputs)]
             else if scenario = ''aggressive''
             then store1[modifiedInputs := scale3 (Fin 1.25) (store1 ! modifiedInputs)]
             else store1)
      in (store2, modifiedInputs))"

text \<open>The object returned for a given argument object.\<close>

definition applyScenario :: "CalculatorInputs \<Rightarrow> string \<Rightarrow> CalculatorInputs" where
  "applyScenario inputs scenario =
     (let (store, adjusted) = applyScenario_store [inputs] 0 scenario in store ! adjusted)"

section \<open>The simplified engines\<close>

subsection \<open>simple-formulas.js\<close>

record SimpleResults =
  s_paybackMonths :: jsnum
  s_roiSimplePct :: jsnum
  s_totalSavingsAnnual :: jsnum

definition simple_calculateROI :: "CalculatorInputs \<Rightarrow> SimpleResults" where
  "simple_calculateROI inputs =
     (let baselineFuelCost =
            js_mul (js_mul (js_mul (vehicleCount inputs) (annualKmPerVehicle inputs))
                           (js_div (fuelConsumptionLPer100km inputs) (Fin 100)))
                   (fuelPricePerLitre inputs);
          fuelSavings =
            js_mul (js_mul baselineFuelCost (js_div (fuelSavingsPct inputs) (Fin 100)))
                   (js_div (adoptionPct inputs) (Fin 100));
          accidentSavings =
            js_mul (js_mul (js_mul (baselineAccidentsPerYear inputs)
                                   (js_div (accidentReductionPct inputs) (Fin 100)))
                           (js_div (adoptionPct inputs) (Fin 100)))
                   (avgAccidentCost inputs);
          insuranceSavings =
            js_mul (js_mul (annualInsurancePremium inputs)
                           (js_div (insuranceReductionPct inputs) (Fin 100)))
                   (js_div (adoptionPct inputs) (Fin 100));
          totalSavingsAnnual = js_add (js_add fuelSavings accidentSavings) insuranceSavings;
          hardwareCosts = js_mul (vehicleCount inputs) (hardwareCostPerVehicle inputs);
          subscriptionAnnual =
            js_mul (js_mul (vehicleCount inputs) (subscriptionPerVehiclePerMonth inputs))
                   (Fin 12);
          oneOffCosts = js_add (implementationOneOff inputs) (trainingOneOff inputs);
          monthlySavings = js_div totalSavingsAnnual (Fin 12);
          monthlyCosts = js_div subscriptionAnnual (Fin 12);
          netMonthlySavings = js_sub monthlySavings monthlyCosts;
          initialCosts = js_add hardwareCosts oneOffCosts;
          paybackMonths = js_ceil (js_div initialCosts netMonthlySavings);
          totalCosts = js_add (js_add hardwareCosts oneOffCosts)
                              (js_mul subscriptionAnnual (timeHorizonYears inputs));
          totalSavings = js_mul totalSavingsAnnual (timeHorizonYears inputs);
          roiSimplePct = js_mul (js_div (js_sub totalSavings totalCosts) totalCosts) (Fin 100)
      in \<lparr> s_paybackMonths = paybackMonths, s_roiSimplePct = roiSimplePct,
           s_totalSavingsAnnual = totalSavingsAnnual \<rparr>)"

definition simple_applyScenario_store ::
  "CalculatorInputs list \<Rightarrow> nat \<Rightarrow> string \<Rightarrow> CalculatorInputs list \<times> nat" where
  "simple_applyScenario_store store inputs scenario =
     (let adjusted = length store;
          store1 = store @ [store ! inputs];
          store2 =
            (if scenario = ''conservative''
             then store1[adjusted := scale3 (Fin 0.75) (store1 ! adjusted)]
             else if scenario = ''aggressive''
             then store1[adjusted := scale3 (Fin 1.25) (store1 ! adjusted)]
             else store1)
      in (store2, adjusted))"

definition simple_applyScenario :: "CalculatorInputs \<Rightarrow> string \<Rightarrow> CalculatorInputs" where
  "simple_applyScenario inputs scenario =
     (let (store, adjusted) = simple_applyScenario_store [inputs] 0 scenario
      in store ! adjusted)"

subsection \<open>The two \<open>calculate\<close> functions of simple-calc.js\<close>

text \<open>
  Both take \<open>data\<close>, the record of the inputs merged over the defaults. The older one
  (backup/src-complex/simple-calc.js) has the hardware cost; the current one
  (src/simple-calc.js) has not, and returns \<open>null\<close> (\<open>None\<close>) for the payback when the net
  monthly saving is not positive.
\<close>

definition backup_calculate :: "CalculatorInputs \<Rightarrow> SimpleResults" where
  "backup_calculate data =
     (let baselineLitres =
            js_mul (js_mul (vehicleCount data) (annualKmPerVehicle data))
                   (js_div (fuelConsumptionLPer100km data) (Fin 100));
          baselineFuelCost = js_mul baselineLitres (fuelPricePerLitre data);
          fuelSavings =
            js_mul (js_mul baselineFuelCost (js_div (fuelSavingsPct data) (Fin 100)))
                   (js_div (adoptionPct data) (Fin 100));
          accidentSavings =
            js_mul (js_mul (js_mul (baselineAccidentsPerYear data)
                                   (js_div (accidentReductionPct data) (Fin 100)))
                           (js_div (adoptionPct data) (Fin 100)))
                   (avgAccidentCost data);
          insuranceSavings =
            js_mul (js_mul (annualInsurancePremium data)
                           (js_div (insuranceReductionPct data) (Fin 100)))
                   (js_div (adoptionPct data) (Fin 100));
          totalSavingsAnnual = js_add (js_add fuelSavings accidentSavings) insuranceSavings;
          hardwareCost = js_mul (vehicleCount data) (hardwareCostPerVehicle data);
          subscriptionAnnual =
            js_mul (js_mul (vehicleCount data) (subscriptionPerVehiclePerMonth data)) (Fin 12);
          oneOffCosts = js_add (implementationOneOff data) (trainingOneOff data);
          totalCosts = js_add (js_add hardwareCost oneOffCosts)
                              (js_mul subscriptionAnnual (timeHorizonYears data));
          totalSavings = js_mul totalSavingsAnnual (timeHorizonYears data);
          roi = js_mul (js_div (js_sub totalSavings totalCosts) totalCosts) (Fin 100);
          monthlySavings = js_div totalSavingsAnnual (Fin 12);
          monthlyCosts = js_div subscriptionAnnual (Fin 12);
          netMonthly = js_sub monthlySavings monthlyCosts;
          paybackMonths = js_ceil (js_div (js_add hardwareCost oneOffCosts) netMonthly)
      in \<lparr> s_paybackMonths = paybackMonths, s_roiSimplePct = roi,
           s_totalSavingsAnnual = totalSavingsAnnual \<rparr>)"

record LeanResults =
  l_totalSavingsAnnual :: jsnum
  l_subscriptionAnnual :: jsnum
  l_roiSimplePct :: jsnum
  l_paybackMonths :: "jsnum option"

definition lean_calculate :: "CalculatorInputs \<Rightarrow> LeanResults" where
  "lean_calculate data =
     (let baselineLitres =
            js_mul (js_mul (vehicleCount data) (annualKmPerVehicle data))
                   (js_div (fuelConsumptionLPer100km data) (Fin 100));
          baselineFuelCost = js_mul baselineLitres (fuelPricePerLitre data);
          fuelSavings =
            js_mul (js_mul baselineFuelCost (js_div (fuelSavingsPct data) (Fin 100)))
                   (js_div (adoptionPct data) (Fin 100));
          accidentSavings =
            js_mul (js_mul (js_mul (baselineAccidentsPerYear data)
                                   (js_div (accidentReductionPct data) (Fin 100)))
                           (js_div (adoptionPct data) (Fin 100)))
                   (avgAccidentCost data);
          insuranceSavings =
            js_mul (js_mul (annualInsurancePremium data)
                           (js_div (insuranceReductionPct data) (Fin 100)))
                   (js_div (adoptionPct data) (Fin 100));
          totalSavingsAnnual = js_add (js_add fuelSavings accidentSavings) insuranceSavings;
          subscriptionAnnual =
            js_mul (js_mul (vehicleCount data) (subscriptionPerVehiclePerMonth data)) (Fin 12);
          oneOffCosts = js_add (implementationOneOff data) (trainingOneOff data);
          totalCosts = js_add oneOffCosts (js_mul subscriptionAnnual (timeHorizonYears data));
          totalSavings = js_mul totalSavingsAnnual (timeHorizonYears data);
          roi = js_mul (js_div (js_sub totalSavings totalCosts) totalCosts) (Fin 100);
          monthlySavings = js_div totalSavingsAnnual (Fin 12);
          monthlyCosts = js_div subscriptionAnnual (Fin 12);
          netMonthly = js_sub monthlySavings monthlyCosts;
          paybackMonths =
            (if js_gt netMonthly (Fin 0) then Some (js_ceil (js_div oneOffCosts netMonthly))
             else None)
      in \<lparr> l_totalSavingsAnnual = totalSavingsAnnual,
           l_subscriptionAnnual = subscriptionAnnual,
           l_roiSimplePct = roi, l_paybackMonths = paybackMonths \<rparr>)"

section \<open>JavaScript values and strings\<close>

text \<open>
  The values a raw input record can hold. A string is the list of its code units, and a
  \<open>char\<close> is a code unit below 256; strings with other code units are outside this type.
  Among these code units the white space and line terminators of JavaScript are the tab,
  the line feed, the vertical tab, the form feed, the carriage return, the space and the
  no-break space \<open>U+00A0\<close>.
\<close>

datatype jsval = JUndefined | JNull | JBool bool | JNum jsnum | JStr string

definition is_digit :: "char \<Rightarrow> bool" where
  "is_digit c = (c \<in> set ''0123456789'')"

definition digit_val :: "char \<Rightarrow> nat" where
  "digit_val c =
     (case map_of (zip ''0123456789'' [0, 1, 2, 3, 4, 5, 6, 7, 8, 9]) c of
        Some d \<Rightarrow> d
      | None \<Rightarrow> 0)"

definition digits_val :: "string \<Rightarrow> nat" where
  "digits_val ds = foldl (\<lambda>a c. 10 * a + digit_val c) 0 ds"

definition is_ws :: "char \<Rightarrow> bool" where
  "is_ws c =
     (c \<in> set [CHR '' '', CHR 0x09, CHR 0x0A, CHR 0x0B, CHR 0x0C, CHR 0x0D, CHR 0xA0])"

text \<open>An optional sign: whether it is a minus, and the rest of the string.\<close>

definition split_sign :: "string \<Rightarrow> bool \<times> string" where
  "split_sign s =
     (case s of
        [] \<Rightarrow> (False, s)
      | c # r \<Rightarrow> if c = CHR ''-'' then (True, r) else if c = CHR ''+'' then (False, r)
                 else (False, s))"

text \<open>
  \<open>parseInt(s, 10)\<close>: white space, a sign, then the longest run of digits, read as the
  nearest double.
\<close>

definition parseInt_str :: "string \<Rightarrow> jsnum" where
  "parseInt_str s =
     (let (neg, r) = split_sign (dropWhile is_ws s);
          ds = takeWhile is_digit r
      in if ds = [] then NaN
         else if neg then js_neg (to_double (digits_val ds) 1)
         else to_double (digits_val ds) 1)"

text \<open>
  The longest prefix that is a \<open>StrDecimalLiteral\<close>: \<open>Infinity\<close>, or digits with an
  optional fraction and an optional exponent; the exponent counts only when a digit
  follows it. The digits before and after the point are one decimal number, and each
  digit after the point takes one from the exponent.
\<close>

definition scan_exponent :: "string \<Rightarrow> int \<times> string" where
  "scan_exponent s =
     (case s of
        [] \<Rightarrow> (0, s)
      | c # r \<Rightarrow>
          if c = CHR ''e'' \<or> c = CHR ''E''
          then (let (neg, r') = split_sign r; ds = takeWhile is_digit r'
                in if ds = [] then (0, s)
                   else ((if neg then - int (digits_val ds) else int (digits_val ds)),
                         dropWhile is_digit r'))
          else (0, s))"

definition scan_fraction :: "string \<Rightarrow> string \<times> string" where
  "scan_fraction s =
     (case s of
        [] \<Rightarrow> ([], s)
      | c # r \<Rightarrow> if c = CHR ''.'' then (takeWhile is_digit r, dropWhile is_digit r)
                 else ([], s))"

definition scan_unsigned :: "string \<Rightarrow> (jsnum \<times> string) option" where
  "scan_unsigned s =
     (if take 8 s = ''Infinity'' then Some (PosInf, drop 8 s)
      else let ds1 = takeWhile is_digit s;
               (ds2, r2) = scan_fraction (dropWhile is_digit s)
           in if ds1 = [] \<and> ds2 = [] then None
              else let (e, r3) = scan_exponent r2
                   in Some (decimal_to_double (digits_val (ds1 @ ds2))
                              (e - int (length ds2)), r3))"

definition scan_decimal :: "string \<Rightarrow> (jsnum \<times> string) option" where
  "scan_decimal s =
     (let (neg, r) = split_sign s
      in case scan_unsigned r of
           None \<Rightarrow> None
         | Some (v, rest) \<Rightarrow> Some (if neg then js_neg v else v, rest))"

definition parseFloat_str :: "string \<Rightarrow> jsnum" where
  "parseFloat_str s =
     (case scan_decimal (dropWhile is_ws s) of None \<Rightarrow> NaN | Some (v, rest) \<Rightarrow> v)"

text \<open>
  What it is for a string to begin with a number: after the white space and an optional
  sign comes \<open>Infinity\<close>, a digit, or a point followed by a digit.
\<close>

definition has_numeric_prefix :: "string \<Rightarrow> bool" where
  "has_numeric_prefix t =
     (let r = snd (split_sign (dropWhile is_ws t))
      in take 8 r = ''Infinity''
         \<or> (case r of
               [] \<Rightarrow> False
             | c # r' \<Rightarrow>
                 is_digit c
                 \<or> (c = CHR ''.'' \<and> (case r' of [] \<Rightarrow> False | d # r'' \<Rightarrow> is_digit d))))"

text \<open>
  \<open>Number(s)\<close> on a string: the trimmed string is empty (zero), a whole decimal literal, or
  a hexadecimal, octal or binary literal; anything else is \<open>NaN\<close>.
\<close>

definition radix_digit :: "char \<Rightarrow> nat" where
  "radix_digit c =
     (if is_digit c then digit_val c
      else if c \<in> set ''aA'' then 10 else if c \<in> set ''bB'' then 11
      else if c \<in> set ''cC'' then 12 else if c \<in> set ''dD'' then 13
      else if c \<in> set ''eE'' then 14 else if c \<in> set ''fF'' then 15 else 16)"

definition radix_literal :: "string \<Rightarrow> jsnum" where
  "radix_literal s =
     (case s of
        c0 # c1 # ds \<Rightarrow>
          (let b = (if c1 \<in> set ''xX'' then 16 else if c1 \<in> set ''oO'' then 8
                    else if c1 \<in> set ''bB'' then 2 else 0)
           in if c0 = CHR ''0'' \<and> ds \<noteq> [] \<and> list_all (\<lambda>c. radix_digit c < b) ds
              then to_double (foldl (\<lambda>a c. b * a + radix_digit c) 0 ds) 1
              else NaN)
      | _ \<Rightarrow> NaN)"

definition trim :: "string \<Rightarrow> string" where
  "trim s = rev (dropWhile is_ws (rev (dropWhile is_ws s)))"

definition stringToNumber :: "string \<Rightarrow> jsnum" where
  "stringToNumber s =
     (let t = trim s
      in if t = [] then Fin 0
         else case scan_decimal t of
                Some (v, rest) \<Rightarrow> if rest = [] then v else radix_literal t
              | None \<Rightarrow> radix_literal t)"

text \<open>
  A number as a string (\<open>Number.prototype.toString\<close>): plain decimal notation from
  \<open>1e-6\<close> up to \<open>1e21\<close>, exponent notation outside. A real with a short decimal
  expansion prints as that expansion; a longer expansion is cut after 17 significant
  digits, where the double would be printed rounded.
\<close>

fun nat_digits :: "nat \<Rightarrow> string" where
  "nat_digits n =
     (if n < 10 then [''0123456789'' ! n]
      else nat_digits (n div 10) @ [''0123456789'' ! (n mod 10)])"

declare nat_digits.simps [simp del]

fun frac_digits :: "nat \<Rightarrow> real \<Rightarrow> string" where
  "frac_digits k f =
     (if k = 0 \<or> f = 0 then []
      else (let d = nat \<lfloor>f * 10\<rfloor>
            in (''0123456789'' ! d) # frac_digits (k - 1) (f * 10 - real d)))"

declare frac_digits.simps [simp del]

fun leading_zeros :: "nat \<Rightarrow> real \<Rightarrow> nat" where
  "leading_zeros k f =
     (if k = 0 then 0
      else if f * 10 < 1 then Suc (leading_zeros (k - 1) (f * 10)) else 0)"

declare leading_zeros.simps [simp del]

definition with_point :: "string \<Rightarrow> string \<Rightarrow> string" where
  "with_point ip fp = (if fp = [] then ip else ip @ CHR ''.'' # fp)"

definition positiveToString :: "real \<Rightarrow> string" where
  "positiveToString a =
     (if 10 ^ 21 \<le> a then
        (let ids = nat_digits (nat \<lfloor>a\<rfloor>);
             sig = rev (dropWhile (\<lambda>c. c = CHR ''0'') (rev (take 17 ids)))
         in with_point (take 1 sig) (drop 1 sig) @ ''e+'' @ nat_digits (length ids - 1))
      else if 1 / 10 ^ 6 \<le> a then
        (let ip = nat \<lfloor>a\<rfloor>; ids = nat_digits ip; f = a - real ip;
             k = (if ip = 0 then leading_zeros 6 f + 17 else 17 - length ids)
         in with_point ids (frac_digits k f))
      else
        (let z = leading_zeros 324 a; m = a * 10 ^ (z + 1); d = nat \<lfloor>m\<rfloor>
         in if z = 324 then ''0''
            else with_point (nat_digits d) (frac_digits 16 (m - real d))
                 @ ''e-'' @ nat_digits (z + 1)))"

fun numberToString :: "jsnum \<Rightarrow> string" where
  "numberToString NaN = ''NaN''"
| "numberToString PosInf = ''Infinity''"
| "numberToString NegInf = ''-Infinity''"
| "numberToString (Fin a) =
     (if a = 0 then ''0''
      else if a < 0 then CHR ''-'' # positiveToString (- a)
      else positiveToString a)"

fun toString :: "jsval \<Rightarrow> string" where
  "toString JUndefined = ''undefined''"
| "toString JNull = ''null''"
| "toString (JBool b) = (if b then ''true'' else ''false'')"
| "toString (JNum n) = numberToString n"
| "toString (JStr s) = s"

fun toNumber :: "jsval \<Rightarrow> jsnum" where
  "toNumber JUndefined = NaN"
| "toNumber JNull = Fin 0"
| "toNumber (JBool b) = (if b then Fin 1 else Fin 0)"
| "toNumber (JNum n) = n"
| "toNumber (JStr s) = stringToNumber s"

fun truthy :: "jsval \<Rightarrow> bool" where
  "truthy JUndefined = False"
| "truthy JNull = False"
| "truthy (JBool b) = b"
| "truthy (JNum n) = (n \<noteq> NaN \<and> n \<noteq> Fin 0)"
| "truthy (JStr s) = (s \<noteq> [])"

fun is_number :: "jsval \<Rightarrow> bool" where
  "is_number (JNum n) = True"
| "is_number _ = False"

fun is_string :: "jsval \<Rightarrow> bool" where
  "is_string (JStr s) = True"
| "is_string _ = False"

fun split_on :: "char \<Rightarrow> string \<Rightarrow> string list" where
  "split_on d [] = [[]]"
| "split_on d (c # cs) =
     (if c = d then [] # split_on d cs
      else (case split_on d cs of p # ps \<Rightarrow> (c # p) # ps | [] \<Rightarrow> [[c]]))"

section \<open>Validation (validate.js)\<close>

text \<open>The keys of \<open>validationSchema\<close>, in the order of the object literal.\<close>

datatype field =
    VehicleCount | AnnualKmPerVehicle | FuelConsumptionLPer100km | FuelPricePerLitre
  | BaselineAccidentsPerYear | AvgAccidentCost | AnnualInsurancePremium
  | FuelSavingsPct | AccidentReductionPct | InsuranceReductionPct | AdoptionPct
  | HardwareCostPerVehicle | SubscriptionPerVehiclePerMonth | ImplementationOneOff
  | TrainingOneOff | TimeHorizonYears | DiscountRatePct | Currency | StartMonth
  | UtilisationRampMonths | ResaleRecoveryPctHardware | MaintenancePerVehiclePerYear

definition schema_fields :: "field list" where
  "schema_fields =
     [VehicleCount, AnnualKmPerVehicle, FuelConsumptionLPer100km, FuelPricePerLitre,
      BaselineAccidentsPerYear, AvgAccidentCost, AnnualInsurancePremium,
      FuelSavingsPct, AccidentReductionPct, InsuranceReductionPct, AdoptionPct,
      HardwareCostPerVehicle, SubscriptionPerVehiclePerMonth, ImplementationOneOff,
      TrainingOneOff, TimeHorizonYears, DiscountRatePct, Currency, StartMonth,
      UtilisationRampMonths, ResaleRecoveryPctHardware, MaintenancePerVehiclePerYear]"

datatype ftype = TInteger | TNumber | TString | TDate

text \<open>
  A schema entry. The \<open>error\<close> text of each entry is never read by the validation code
  and is not part of the model.
\<close>

record schema_entry =
  smin :: "real option"
  smax :: "real option"
  stype :: ftype
  allowedValues :: "string list option"

fun validationSchema :: "field \<Rightarrow> schema_entry" where
  "validationSchema VehicleCount =
     \<lparr>smin = Some 1, smax = Some 10000, stype = TInteger, allowedValues = None\<rparr>"
| "validationSchema AnnualKmPerVehicle =
     \<lparr>smin = Some 1000, smax = Some 200000, stype = TNumber, allowedValues = None\<rparr>"
| "validationSchema FuelConsumptionLPer100km =
     \<lparr>smin = Some 5, smax = Some 50, stype = TNumber, allowedValues = None\<rparr>"
| "validationSchema FuelPricePerLitre =
     \<lparr>smin = Some 0.5, smax = Some 5, stype = TNumber, allowedValues = None\<rparr>"
| "validationSchema BaselineAccidentsPerYear =
     \<lparr>smin = Some 0, smax = Some 1000, stype = TNumber, allowedValues = None\<rparr>"
| "validationSchema AvgAccidentCost =
     \<lparr>smin = Some 100, smax = Some 100000, stype = TNumber, allowedValues = None\<rparr>"
| "validationSchema AnnualInsurancePremium =
     \<lparr>smin = Some 1000, smax = Some 10000000, stype = TNumber, allowedValues = None\<rparr>"
| "validationSchema FuelSavingsPct =
     \<lparr>smin = Some 0, smax = Some 50, stype = TNumber, allowedValues = None\<rparr>"
| "validationSchema AccidentReductionPct =
     \<lparr>smin = Some 0, smax = Some 100, stype = TNumber, allowedValues = None\<rparr>"
| "validationSchema InsuranceReductionPct =
     \<lparr>smin = Some 0, smax = Some 50, stype = TNumber, allowedValues = None\<rparr>"
| "validationSchema AdoptionPct =
     \<lparr>smin = Some 0, smax = Some 100, stype = TNumber, allowedValues = None\<rparr>"
| "validationSchema HardwareCostPerVehicle =
     \<lparr>smin = Some 0, smax = Some 5000, stype = TNumber, allowedValues = None\<rparr>"
| "validationSchema SubscriptionPerVehiclePerMonth =
     \<lparr>smin = Some 0, smax = Some 200, stype = TNumber, allowedValues = None\<rparr>"
| "validationSchema ImplementationOneOff =
     \<lparr>smin = Some 0, smax = Some 50000, stype = TNumber, allowedValues = None\<rparr>"
| "validationSchema TrainingOneOff =
     \<lparr>smin = Some 0, smax = Some 50000, stype = TNumber, allowedValues = None\<rparr>"
| "validationSchema TimeHorizonYears =
     \<lparr>smin = Some 1, smax = Some 10, stype = TInteger, allowedValues = None\<rparr>"
| "validationSchema DiscountRatePct =
     \<lparr>smin = Some 0, smax = Some 20, stype = TNumber, allowedValues = None\<rparr>"
| "validationSchema Currency =
     \<lparr>smin = None, smax = None, stype = TString,
      allowedValues = Some [''EUR'', ''USD'', ''GBP'']\<rparr>"
| "validationSchema StartMonth =
     \<lparr>smin = None, smax = None, stype = TDate, allowedValues = None\<rparr>"
| "validationSchema UtilisationRampMonths =
     \<lparr>smin = Some 0, smax = Some 24, stype = TInteger, allowedValues = None\<rparr>"
| "validationSchema ResaleRecoveryPctHardware =
     \<lparr>smin = Some 0, smax = Some 100, stype = TNumber, allowedValues = None\<rparr>"
| "validationSchema MaintenancePerVehiclePerYear =
     \<lparr>smin = Some 0, smax = Some 1000, stype = TNumber, allowedValues = None\<rparr>"

text \<open>
  An object with schema keys: a missing key reads as \<open>undefined\<close>. Keys outside the schema
  are never read by the validation.
\<close>

type_synonym jsobj = "field \<rightharpoonup> jsval"

definition get_prop :: "jsobj \<Rightarrow> field \<Rightarrow> jsval" where
  "get_prop obj f = (case obj f of None \<Rightarrow> JUndefined | Some v \<Rightarrow> v)"

subsection \<open>Coercion\<close>

text \<open>
  \<open>new Date(year, month - 1)\<close> followed by \<open>getFullYear() === year\<close> and
  \<open>getMonth() === month - 1\<close>: the constructor reads a year from 0 to 99 as 1900 plus
  that year, and carries a month index outside 0..11 into the year. Time-zone anomalies
  are not modelled.
\<close>

definition date_ok :: "nat \<Rightarrow> nat \<Rightarrow> bool" where
  "date_ok year month =
     (let y = (if year \<le> 99 then 1900 + int year else int year);
          m0 = int month - 1
      in y + m0 div 12 = int year \<and> m0 mod 12 = m0)"

text \<open>The regular expression \<open>/^\d{4}-\d{2}$/\<close>.\<close>

definition is_year_month :: "string \<Rightarrow> bool" where
  "is_year_month s =
     (length s = 7 \<and> list_all is_digit (take 4 s) \<and> s ! 4 = CHR ''-''
      \<and> list_all is_digit (drop 5 s))"

text \<open>
  \<open>parseInt\<close> and \<open>parseFloat\<close> first turn their argument into a string. In the date
  case the two parts are runs of digits, so \<open>Number\<close> gives their decimal value.
\<close>

definition coerceValue :: "jsval \<Rightarrow> ftype \<Rightarrow> jsval" where
  "coerceValue v t =
     (if v = JNull \<or> v = JUndefined \<or> v = JStr [] then JNull
      else case t of
        TInteger \<Rightarrow>
          (let intValue = parseInt_str (toString v)
           in if js_isNaN intValue then JNull else JNum intValue)
      | TNumber \<Rightarrow>
          (let numValue = parseFloat_str (toString v)
           in if js_isNaN numValue then JNull else JNum numValue)
      | TString \<Rightarrow> JStr (toString v)
      | TDate \<Rightarrow>
          (case v of
             JStr s \<Rightarrow>
               if is_year_month s \<and> date_ok (digits_val (take 4 s)) (digits_val (drop 5 s))
               then v else JNull
           | _ \<Rightarrow> JNull))"

subsection \<open>Field validation\<close>

text \<open>
  The error messages, as values: \<open>"f is required"\<close>, \<open>"f must be a whole number"\<close>,
  \<open>"f must be a number"\<close>, \<open>"f must be text"\<close>, \<open>"f must be at least min"\<close>,
  \<open>"f must be at most max"\<close>, \<open>"f must be one of: ..."\<close>, and the cross-field message
  \<open>"Utilisation ramp cannot exceed the time horizon"\<close>.
\<close>

datatype verror =
    Required field | NotWhole field | NotNumber field | NotText field
  | AtLeast field real | AtMost field real | NotOneOf field "string list"
  | RampExceedsHorizon

fun isIntegerVal :: "jsval \<Rightarrow> bool" where
  "isIntegerVal (JNum n) = js_isInteger n"
| "isIntegerVal _ = False"

definition check_range :: "field \<Rightarrow> jsval \<Rightarrow> schema_entry \<Rightarrow> verror option" where
  "check_range fieldName v sch =
     (case v of
        JNum n \<Rightarrow>
          (case smin sch of
             Some lo \<Rightarrow>
               if js_lt n (Fin lo) then Some (AtLeast fieldName lo)
               else (case smax sch of
                       Some hi \<Rightarrow> if js_gt n (Fin hi) then Some (AtMost fieldName hi) else None
                     | None \<Rightarrow> None)
           | None \<Rightarrow>
               (case smax sch of
                  Some hi \<Rightarrow> if js_gt n (Fin hi) then Some (AtMost fieldName hi) else None
                | None \<Rightarrow> None))
      | _ \<Rightarrow> None)"

definition check_allowed :: "field \<Rightarrow> jsval \<Rightarrow> schema_entry \<Rightarrow> verror option" where
  "check_allowed fieldName v sch =
     (case allowedValues sch of
        None \<Rightarrow> None
      | Some vs \<Rightarrow>
          (case v of
             JStr s \<Rightarrow> if s \<in> set vs then None else Some (NotOneOf fieldName vs)
           | _ \<Rightarrow> Some (NotOneOf fieldName vs)))"

definition validateField :: "field \<Rightarrow> jsval \<Rightarrow> schema_entry \<Rightarrow> verror option" where
  "validateField fieldName v sch =
     (if v = JNull \<or> v = JUndefined \<or> v = JStr [] then Some (Required fieldName)
      else if stype sch = TInteger \<and> \<not> isIntegerVal v then Some (NotWhole fieldName)
      else if stype sch = TNumber \<and> \<not> is_number v then Some (NotNumber fieldName)
      else if stype sch = TString \<and> \<not> is_string v then Some (NotText fieldName)
      else case check_range fieldName v sch of
             Some e \<Rightarrow> Some e
           | None \<Rightarrow> check_allowed fieldName v sch)"

subsection \<open>Cross-field validation\<close>

text \<open>
  The month a \<open>Date\<close> built from \<open>(year, month - 1)\<close> stands for, counted in months, or
  nothing when the date is invalid. The range limit of \<open>Date\<close> is not modelled.
\<close>

definition js_trunc :: "real \<Rightarrow> int" where
  "js_trunc r = (if 0 \<le> r then \<lfloor>r\<rfloor> else \<lceil>r\<rceil>)"

fun month_serial :: "jsnum \<Rightarrow> jsnum \<Rightarrow> int option" where
  "month_serial (Fin y) (Fin m) =
     (let yi = js_trunc y;
          yr = (if 0 \<le> yi \<and> yi \<le> 99 then 1900 + yi else yi)
      in Some (yr * 12 + js_trunc m))"
| "month_serial _ _ = None"

text \<open>
  \<open>startDate < currentMonth\<close>, with \<open>[year, month] = s.split('-').map(Number)\<close> and the
  current year and month index \<open>now\<close>.
\<close>

definition start_before :: "string \<Rightarrow> nat \<times> nat \<Rightarrow> bool" where
  "start_before s now =
     (let parts = split_on (CHR ''-'') s;
          year = stringToNumber (parts ! 0);
          month = (if 1 < length parts then stringToNumber (parts ! 1) else NaN)
      in case month_serial year (js_sub month (Fin 1)) of
           None \<Rightarrow> False
         | Some k \<Rightarrow>
             (case month_serial (Fin (real (fst now))) (Fin (real (snd now))) of
                None \<Rightarrow> False
              | Some c \<Rightarrow> k < c))"

datatype js_exn = TypeError

definition past_warning :: string where
  "past_warning =
     ''Start month is in the past. Savings will be calculated from the specified month.''"

text \<open>
  The result is the error object, as the list of its entries, and what was written to
  the console. \<open>split\<close> on a start month that is truthy but not a string throws.
\<close>

definition validateCrossFields ::
  "nat \<times> nat \<Rightarrow> jsobj \<Rightarrow> js_exn + ((field \<times> verror) list \<times> string list)" where
  "validateCrossFields now inputs =
     (let errs =
        (if js_gt (toNumber (get_prop inputs UtilisationRampMonths))
                  (js_mul (toNumber (get_prop inputs TimeHorizonYears)) (Fin 12))
         then [(UtilisationRampMonths, RampExceedsHorizon)] else [])
      in if truthy (get_prop inputs StartMonth)
         then (case get_prop inputs StartMonth of
                 JStr s \<Rightarrow> Inr (errs, if start_before s now then [past_warning] else [])
               | _ \<Rightarrow> Inl TypeError)
         else Inr (errs, []))"

subsection \<open>validateInputs\<close>

record ValidationResult =
  isValid :: bool
  errors :: "field \<rightharpoonup> verror"
  coercedInputs :: jsobj

text \<open>One pass of the loop over the schema entries.\<close>

definition validate_step :: "jsobj \<Rightarrow> field \<Rightarrow> ValidationResult \<Rightarrow> ValidationResult" where
  "validate_step rawInputs fieldName acc =
     (let sch = validationSchema fieldName;
          rawValue = get_prop rawInputs fieldName;
          coercedValue = coerceValue rawValue (stype sch);
          acc1 = acc\<lparr>coercedInputs := (coercedInputs acc)(fieldName \<mapsto> coercedValue)\<rparr>
      in case validateField fieldName coercedValue sch of
           Some e \<Rightarrow> acc1\<lparr>errors := (errors acc1)(fieldName \<mapsto> e), isValid := False\<rparr>
         | None \<Rightarrow> acc1)"

definition validate_fields :: "jsobj \<Rightarrow> ValidationResult" where
  "validate_fields rawInputs =
     fold (validate_step rawInputs) schema_fields
       \<lparr>isValid = True, errors = Map.empty, coercedInputs = Map.empty\<rparr>"

definition assign :: "(field \<rightharpoonup> verror) \<Rightarrow> (field \<times> verror) list \<Rightarrow> (field \<rightharpoonup> verror)" where
  "assign target source = fold (\<lambda>(k, e) m. m(k \<mapsto> e)) source target"

definition validateInputs ::
  "nat \<times> nat \<Rightarrow> jsobj \<Rightarrow> js_exn + (ValidationResult \<times> string list)" where
  "validateInputs now rawInputs =
     (let acc = validate_fields rawInputs
      in case validateCrossFields now (coercedInputs acc) of
           Inl ex \<Rightarrow> Inl ex
         | Inr (crossFieldErrors, console) \<Rightarrow>
             Inr (acc\<lparr>errors := assign (errors acc) crossFieldErrors,
                      isValid := (if crossFieldErrors \<noteq> [] then False else isValid acc)\<rparr>,
                  console))"

section \<open>From validation to the engine\<close>

text \<open>
  The coerced record is handed to \<open>applyScenario\<close> and \<open>calculateROI\<close> as it is. The
  engine reads it at the type \<open>CalculatorInputs\<close>: numbers everywhere but for the two
  strings. \<open>asInputs\<close> is that reading, and \<open>toObject\<close> the object a record is.
\<close>

definition conforms :: "jsobj \<Rightarrow> field \<Rightarrow> bool" where
  "conforms obj f =
     (case stype (validationSchema f) of
        TInteger \<Rightarrow> is_number (get_prop obj f)
      | TNumber \<Rightarrow> is_number (get_prop obj f)
      | TString \<Rightarrow> is_string (get_prop obj f)
      | TDate \<Rightarrow> is_string (get_prop obj f))"

fun the_num :: "jsval \<Rightarrow> jsnum" where
  "the_num (JNum n) = n"
| "the_num _ = NaN"

fun the_str :: "jsval \<Rightarrow> string" where
  "the_str (JStr s) = s"
| "the_str _ = []"

definition asInputs :: "jsobj \<Rightarrow> CalculatorInputs option" where
  "asInputs obj =
     (if list_all (conforms obj) schema_fields
      then Some
        \<lparr> vehicleCount = the_num (get_prop obj VehicleCount),
          annualKmPerVehicle = the_num (get_prop obj AnnualKmPerVehicle),
          fuelConsumptionLPer100km = the_num (get_prop obj FuelConsumptionLPer100km),
          fuelPricePerLitre = the_num (get_prop obj FuelPricePerLitre),
          baselineAccidentsPerYear = the_num (get_prop obj BaselineAccidentsPerYear),
          avgAccidentCost = the_num (get_prop obj AvgAccidentCost),
          annualInsurancePremium = the_num (get_prop obj AnnualInsurancePremium),
          fuelSavingsPct = the_num (get_prop obj FuelSavingsPct),
          accidentReductionPct = the_num (get_prop obj AccidentReductionPct),
          insuranceReductionPct = the_num (get_prop obj InsuranceReductionPct),
          adoptionPct = the_num (get_prop obj AdoptionPct),
          hardwareCostPerVehicle = the_num (get_prop obj HardwareCostPerVehicle),
          subscriptionPerVehiclePerMonth =
            the_num (get_prop obj SubscriptionPerVehiclePerMonth),
          implementationOneOff = the_num (get_prop obj ImplementationOneOff),
          trainingOneOff = the_num (get_prop obj TrainingOneOff),
          timeHorizonYears = the_num (get_prop obj TimeHorizonYears),
          discountRatePct = the_num (get_prop obj DiscountRatePct),
          currency = the_str (get_prop obj Currency),
          startMonth = the_str (get_prop obj StartMonth),
          utilisationRampMonths = the_num (get_prop obj UtilisationRampMonths),
          resaleRecoveryPctHardware = the_num (get_prop obj ResaleRecoveryPctHardware),
          maintenancePerVehiclePerYear =
            the_num (get_prop obj MaintenancePerVehiclePerYear) \<rparr>
      else None)"

fun field_value :: "CalculatorInputs \<Rightarrow> field \<Rightarrow> jsval" where
  "field_value r VehicleCount = JNum (vehicleCount r)"
| "field_value r AnnualKmPerVehicle = JNum (annualKmPerVehicle r)"
| "field_value r FuelConsumptionLPer100km = JNum (fuelConsumptionLPer100km r)"
| "field_value r FuelPricePerLitre = JNum (fuelPricePerLitre r)"
| "field_value r BaselineAccidentsPerYear = JNum (baselineAccidentsPerYear r)"
| "field_value r AvgAccidentCost = JNum (avgAccidentCost r)"
| "field_value r AnnualInsurancePremium = JNum (annualInsurancePremium r)"
| "field_value r FuelSavingsPct = JNum (fuelSavingsPct r)"
| "field_value r AccidentReductionPct = JNum (accidentReductionPct r)"
| "field_value r InsuranceReductionPct = JNum (insuranceReductionPct r)"
| "field_value r AdoptionPct = JNum (adoptionPct r)"
| "field_value r HardwareCostPerVehicle = JNum (hardwareCostPerVehicle r)"
| "field_value r SubscriptionPerVehiclePerMonth = JNum (subscriptionPerVehiclePerMonth r)"
| "field_value r ImplementationOneOff = JNum (implementationOneOff r)"
| "field_value r TrainingOneOff = JNum (trainingOneOff r)"
| "field_value r TimeHorizonYears = JNum (timeHorizonYears r)"
| "field_value r DiscountRatePct = JNum (discountRatePct r)"
| "field_value r Currency = JStr (currency r)"
| "field_value r StartMonth = JStr (startMonth r)"
| "field_value r UtilisationRampMonths = JNum (utilisationRampMonths r)"
| "field_value r ResaleRecoveryPctHardware = JNum (resaleRecoveryPctHardware r)"
| "field_value r MaintenancePerVehiclePerYear = JNum (maintenancePerVehiclePerYear r)"

definition toObject :: "CalculatorInputs \<Rightarrow> jsobj" where
  "toObject r = (\<lambda>f. Some (field_value r f))"

text \<open>
  \<open>performCalculation\<close>: validate, stop when invalid, otherwise adjust the coerced
  record for the scenario and calculate. \<open>validated_inputs\<close> is the record that reaches
  \<open>applyScenario\<close>.
\<close>

definition validated_inputs :: "nat \<times> nat \<Rightarrow> jsobj \<Rightarrow> CalculatorInputs option" where
  "validated_inputs now rawInputs =
     (case validateInputs now rawInputs of
        Inl ex \<Rightarrow> None
      | Inr (validation, console) \<Rightarrow>
          if isValid validation then asInputs (coercedInputs validation) else None)"

definition performCalculation ::
  "nat \<times> nat \<Rightarrow> jsobj \<Rightarrow> string \<Rightarrow> CalculationOutputs option" where
  "performCalculation now rawInputs scenario =
     (case validated_inputs now rawInputs of
        None \<Rightarrow> None
      | Some inputs \<Rightarrow> calculateROI (applyScenario inputs scenario))"

subsection \<open>The reference inputs\<close>

text \<open>
  The reference record of the documentation, as a form supplies it: all strings. The fuel
  price \<open>1.90\<close> is read as the nearest double, \<open>8556839292003942 / 2 ^ 52\<close>.
\<close>

definition fixture_raw :: jsobj where
  "fixture_raw = map_of
     [(VehicleCount, JStr ''50''), (AnnualKmPerVehicle, JStr ''45000''),
      (FuelConsumptionLPer100km, JStr ''10.5''), (FuelPricePerLitre, JStr ''1.90''),
      (BaselineAccidentsPerYear, JStr ''12''), (AvgAccidentCost, JStr ''6500''),
      (AnnualInsurancePremium, JStr ''120000''), (FuelSavingsPct, JStr ''6''),
      (AccidentReductionPct, JStr ''30''), (InsuranceReductionPct, JStr ''8''),
      (AdoptionPct, JStr ''90''), (HardwareCostPerVehicle, JStr ''350''),
      (SubscriptionPerVehiclePerMonth, JStr ''35''), (ImplementationOneOff, JStr ''2500''),
      (TrainingOneOff, JStr ''1500''), (TimeHorizonYears, JStr ''3''),
      (DiscountRatePct, JStr ''8''), (Currency, JStr ''EUR''),
      (StartMonth, JStr ''2025-01''), (UtilisationRampMonths, JStr ''2''),
      (ResaleRecoveryPctHardware, JStr ''0''), (MaintenancePerVehiclePerYear, JStr ''0'')]"

definition fixture_inputs :: CalculatorInputs where
  "fixture_inputs =
     \<lparr> vehicleCount = Fin 50, annualKmPerVehicle = Fin 45000,
       fuelConsumptionLPer100km = Fin 10.5,
       fuelPricePerLitre = Fin (8556839292003942 / 4503599627370496),
       baselineAccidentsPerYear = Fin 12, avgAccidentCost = Fin 6500,
       annualInsurancePremium = Fin 120000, fuelSavingsPct = Fin 6,
       accidentReductionPct = Fin 30, insuranceReductionPct = Fin 8,
       adoptionPct = Fin 90, hardwareCostPerVehicle = Fin 350,
       subscriptionPerVehiclePerMonth = Fin 35, implementationOneOff = Fin 2500,
       trainingOneOff = Fin 1500, timeHorizonYears = Fin 3, discountRatePct = Fin 8,
       currency = ''EUR'', startMonth = ''2025-01'', utilisationRampMonths = Fin 2,
       resaleRecoveryPctHardware = Fin 0, maintenancePerVehiclePerYear = Fin 0 \<rparr>"

text \<open>The total annual savings of the reference record: fuel, accidents and insurance.\<close>

definition fixture_savings :: real where
  "fixture_savings = 25515 / 2 * (8556839292003942 / 4503599627370496) + 21060 + 8640"

text \<open>
  Variations of the reference inputs: a ramp longer than the horizon, a number followed by
  letters, a number that rounds onto a bound, a fraction in an integer field, the largest fuel saving allowed, no costs, no
  savings, neither, and no savings with no subscription.
\<close>

definition ramp_raw :: jsobj where
  "ramp_raw = fixture_raw(TimeHorizonYears \<mapsto> JStr ''1'', UtilisationRampMonths \<mapsto> JStr ''20'')"

definition abc_raw :: jsobj where
  "abc_raw = fixture_raw(BaselineAccidentsPerYear \<mapsto> JStr ''12abc'')"

definition round_raw :: jsobj where
  "round_raw = fixture_raw(FuelSavingsPct \<mapsto> JStr ''50.000000000000001'')"

definition frac_raw :: jsobj where
  "frac_raw = fixture_raw(VehicleCount \<mapsto> JStr ''3.7'')"

definition max_raw :: jsobj where
  "max_raw = fixture_raw(FuelSavingsPct \<mapsto> JStr ''50'')"

definition max_inputs :: CalculatorInputs where
  "max_inputs = fixture_inputs\<lparr>fuelSavingsPct := Fin 50\<rparr>"

definition zero_cost_inputs :: CalculatorInputs where
  "zero_cost_inputs =
     fixture_inputs\<lparr>hardwareCostPerVehicle := Fin 0, subscriptionPerVehiclePerMonth := Fin 0,
                    implementationOneOff := Fin 0, trainingOneOff := Fin 0\<rparr>"

definition no_savings_inputs :: CalculatorInputs where
  "no_savings_inputs =
     fixture_inputs\<lparr>fuelSavingsPct := Fin 0, accidentReductionPct := Fin 0,
                    insuranceReductionPct := Fin 0\<rparr>"

definition nothing_inputs :: CalculatorInputs where
  "nothing_inputs = zero_cost_inputs\<lparr>adoptionPct := Fin 0\<rparr>"

definition break_even_inputs :: CalculatorInputs where
  "break_even_inputs = no_savings_inputs\<lparr>subscriptionPerVehiclePerMonth := Fin 0\<rparr>"

section \<open>Vocabulary of the statements\<close>

text \<open>
  The running sums of a list from a start value, the net flow of month \<open>i\<close>, and, for a
  raw record, the coerced value of a field, the error of a field, the cross-field
  condition and the console output.
\<close>

fun running_sum :: "jsnum \<Rightarrow> jsnum list \<Rightarrow> jsnum list" where
  "running_sum a [] = []"
| "running_sum a (x # xs) = js_add a x # running_sum (js_add a x) xs"

definition netFlowAt :: "CalculatorInputs \<Rightarrow> jsnum \<Rightarrow> ProgramCosts \<Rightarrow> jsnum \<Rightarrow> nat \<Rightarrow> jsnum" where
  "netFlowAt I S C tm i =
     js_sub (monthlySavings S i (utilisationRampMonths I)) (monthlyCosts I C tm i)"

definition coerced_at :: "jsobj \<Rightarrow> field \<Rightarrow> jsval" where
  "coerced_at raw f = coerceValue (get_prop raw f) (stype (validationSchema f))"

definition field_error :: "jsobj \<Rightarrow> field \<Rightarrow> verror option" where
  "field_error raw f = validateField f (coerced_at raw f) (validationSchema f)"

definition ramp_exceeds :: "jsobj \<Rightarrow> bool" where
  "ramp_exceeds raw =
     js_gt (toNumber (coerced_at raw UtilisationRampMonths))
           (js_mul (toNumber (coerced_at raw TimeHorizonYears)) (Fin 12))"

definition console_of :: "nat \<times> nat \<Rightarrow> jsobj \<Rightarrow> string list" where
  "console_of now raw =
     (case coerced_at raw StartMonth of
        JStr s \<Rightarrow> if start_before s now then [past_warning] else []
      | _ \<Rightarrow> [])"

definition finite_inputs :: "CalculatorInputs \<Rightarrow> bool" where
  "finite_inputs r =
     (is_Fin (vehicleCount r) \<and> is_Fin (annualKmPerVehicle r)
      \<and> is_Fin (fuelConsumptionLPer100km r) \<and> is_Fin (fuelPricePerLitre r)
      \<and> is_Fin (baselineAccidentsPerYear r) \<and> is_Fin (avgAccidentCost r)
      \<and> is_Fin (annualInsurancePremium r) \<and> is_Fin (fuelSavingsPct r)
      \<and> is_Fin (accidentReductionPct r) \<and> is_Fin (insuranceReductionPct r)
      \<and> is_Fin (adoptionPct r) \<and> is_Fin (hardwareCostPerVehicle r)
      \<and> is_Fin (subscriptionPerVehiclePerMonth r) \<and> is_Fin (implementationOneOff r)
      \<and> is_Fin (trainingOneOff r) \<and> is_Fin (timeHorizonYears r)
      \<and> is_Fin (discountRatePct r) \<and> is_Fin (utilisationRampMonths r)
      \<and> is_Fin (resaleRecoveryPctHardware r) \<and> is_Fin (maintenancePerVehiclePerYear r))"

definition annualSavings :: "CalculatorInputs \<Rightarrow> jsnum" where
  "annualSavings inputs =
     calculateTotalSavings (calculateFuelSavings inputs (calculateBaselineFuelCost inputs))
       (calculateAccidentSavings inputs) (calculateInsuranceSavings inputs)"

definition horizon_timeline :: "CalculatorInputs \<Rightarrow> nat \<Rightarrow> Timeline" where
  "horizon_timeline inputs n =
     (let S = annualSavings inputs; C = calculateProgramCosts inputs; tm = Fin (real n)
      in \<lparr> months = map (\<lambda>i. Fin (real i + 1)) [0..<n],
           savingsMonthly = map (\<lambda>i. monthlySavings S i (utilisationRampMonths inputs)) [0..<n],
           costsMonthly = map (monthlyCosts inputs C tm) [0..<n],
           netMonthly = map (netFlowAt inputs S C tm) [0..<n],
           cumNetMonthly = running_sum (Fin 0) (map (netFlowAt inputs S C tm) [0..<n]) \<rparr>)"

section \<open>Arithmetic on finite numbers\<close>

lemma is_Fin_add: "is_Fin a \<Longrightarrow> is_Fin b \<Longrightarrow> is_Fin (js_add a b)"
  by (cases a; cases b) simp_all

lemma is_Fin_neg: "is_Fin a \<Longrightarrow> is_Fin (js_neg a)"
  by (cases a) simp_all

lemma is_Fin_sub: "is_Fin a \<Longrightarrow> is_Fin b \<Longrightarrow> is_Fin (js_sub a b)"
  by (simp add: js_sub_def is_Fin_add is_Fin_neg)

lemma is_Fin_mul: "is_Fin a \<Longrightarrow> is_Fin b \<Longrightarrow> is_Fin (js_mul a b)"
  by (cases a; cases b) simp_all

lemma is_Fin_div: "is_Fin a \<Longrightarrow> c \<noteq> 0 \<Longrightarrow> is_Fin (js_div a (Fin c))"
  by (cases a) simp_all

lemma is_Fin_seq: "is_Fin a \<Longrightarrow> js_seq a a"
  by (cases a) simp_all

lemma add_zero_Fin: "is_Fin a \<Longrightarrow> js_add (Fin 0) a = a"
  by (cases a) simp_all

lemma rampFactor_nat:
  "rampFactor i (Fin (real r)) = (if i < r then Fin ((real i + 1) / real r) else Fin 1)"
  by (simp add: rampFactor_def)

lemma is_Fin_rampFactor: "is_Fin (rampFactor i (Fin (real r)))"
  by (simp add: rampFactor_nat)

section \<open>The timeline loop returns\<close>

lemma timeline_loop_fold:
  "i \<le> n \<Longrightarrow>
   timeline_loop I S C (Fin (real n)) i st =
     Some (fold (timeline_body I S C (Fin (real n))) [i..<n] st)"
proof (induction "n - i" arbitrary: i st)
  case 0
  then show ?case by (subst timeline_loop.simps) simp
next
  case (Suc k)
  then have lt: "i < n" and k: "k = n - Suc i" and le: "Suc i \<le> n" by simp_all
  show ?case
    by (subst timeline_loop.simps) (simp add: lt Suc.hyps(1)[OF k le] upt_conv_Cons)
qed

lemma timeline_body_step:
  "timeline_body I S C tm j (t, c) =
     (\<lparr> months = months t @ [Fin (real j + 1)],
        savingsMonthly = savingsMonthly t @ [monthlySavings S j (utilisationRampMonths I)],
        costsMonthly = costsMonthly t @ [monthlyCosts I C tm j],
        netMonthly = netMonthly t @ [netFlowAt I S C tm j],
        cumNetMonthly = cumNetMonthly t @ [js_add c (netFlowAt I S C tm j)] \<rparr>,
      js_add c (netFlowAt I S C tm j))"
  by (simp add: timeline_body_def Let_def netFlowAt_def)

lemma fold_timeline_body:
  "fold (timeline_body I S C tm) js (t, c) =
     (\<lparr> months = months t @ map (\<lambda>i. Fin (real i + 1)) js,
        savingsMonthly = savingsMonthly t @ map (\<lambda>i. monthlySavings S i (utilisationRampMonths I)) js,
        costsMonthly = costsMonthly t @ map (monthlyCosts I C tm) js,
        netMonthly = netMonthly t @ map (netFlowAt I S C tm) js,
        cumNetMonthly = cumNetMonthly t @ running_sum c (map (netFlowAt I S C tm) js) \<rparr>,
      foldl js_add c (map (netFlowAt I S C tm) js))"
proof (induction js arbitrary: t c)
  case Nil
  show ?case by simp
next
  case (Cons j js)
  show ?case
    by (simp add: timeline_body_step Cons.IH)
qed

lemma length_running_sum: "length (running_sum a xs) = length xs"
  by (induction xs arbitrary: a) simp_all

lemma running_sum_0: "xs \<noteq> [] \<Longrightarrow> running_sum a xs ! 0 = js_add a (xs ! 0)"
  by (cases xs) simp_all

lemma running_sum_Suc:
  "Suc i < length xs \<Longrightarrow>
   running_sum a xs ! Suc i = js_add (running_sum a xs ! i) (xs ! Suc i)"
proof (induction xs arbitrary: a i)
  case Nil
  then show ?case by simp
next
  case (Cons x xs)
  show ?case
  proof (cases i)
    case 0
    with Cons.prems show ?thesis by (cases xs) simp_all
  next
    case (Suc j)
    with Cons show ?thesis by simp
  qed
qed

lemma is_Fin_running_sum:
  "is_Fin a \<Longrightarrow> list_all is_Fin xs \<Longrightarrow> list_all is_Fin (running_sum a xs)"
  by (induction xs arbitrary: a) (simp_all add: is_Fin_add)

section \<open>The payback loop\<close>



lemma payback_loop_le: "i \<le> length xs \<Longrightarrow> payback_loop xs i \<le> length xs"
proof (induction xs i rule: payback_loop.induct)
  case (1 cumNet i)
  show ?case
  proof (cases "i < length cumNet")
    case True
    with 1 show ?thesis by (subst payback_loop.simps) auto
  next
    case False
    then show ?thesis by (subst payback_loop.simps) simp
  qed
qed

lemma payback_loop_none:
  "\<forall>k. i \<le> k \<and> k < length xs \<longrightarrow> \<not> js_ge (xs ! k) (Fin 0) \<Longrightarrow>
   payback_loop xs i = length xs"
proof (induction xs i rule: payback_loop.induct)
  case (1 cumNet i)
  show ?case
  proof (cases "i < length cumNet")
    case True
    then have n: "\<not> js_ge (cumNet ! i) (Fin 0)" using "1.prems" by simp
    have "payback_loop cumNet (Suc i) = length cumNet"
      using "1.IH"[OF True n] "1.prems" by simp
    then show ?thesis using True n by (subst payback_loop.simps) simp
  next
    case False
    then show ?thesis by (subst payback_loop.simps) simp
  qed
qed

lemma payback_loop_first:
  "i \<le> k \<Longrightarrow> k < length xs \<Longrightarrow> js_ge (xs ! k) (Fin 0) \<Longrightarrow>
   i < payback_loop xs i \<and> payback_loop xs i \<le> length xs
   \<and> js_ge (xs ! (payback_loop xs i - 1)) (Fin 0)
   \<and> (\<forall>j. i \<le> j \<and> j < payback_loop xs i - 1 \<longrightarrow> \<not> js_ge (xs ! j) (Fin 0))"
proof (induction xs i rule: payback_loop.induct)
  case (1 cumNet i)
  have lt: "i < length cumNet" using "1.prems" by simp
  show ?case
  proof (cases "js_ge (cumNet ! i) (Fin 0)")
    case True
    then have "payback_loop cumNet i = i + 1" using lt by (subst payback_loop.simps) simp
    then show ?thesis using True lt by auto
  next
    case False
    then have ik: "Suc i \<le> k" using "1.prems" by (cases "i = k") auto
    have eq: "payback_loop cumNet i = payback_loop cumNet (Suc i)"
      using lt False by (subst payback_loop.simps) simp
    note IH = "1.IH"[OF lt False ik "1.prems"(2,3)]
    have all: "\<not> js_ge (cumNet ! j) (Fin 0)"
      if "i \<le> j" "j < payback_loop cumNet (Suc i) - 1" for j
    proof (cases "j = i")
      case True
      then show ?thesis using False by simp
    next
      case False
      then have "Suc i \<le> j" using that by simp
      then show ?thesis using IH that by blast
    qed
    from IH have "i < payback_loop cumNet (Suc i)" by simp
    then show ?thesis
      unfolding eq using IH all by blast
  qed
qed

section \<open>What validateInputs returns\<close>

lemma validate_step_coerced:
  "coercedInputs (validate_step raw g acc) f =
     (if f = g then Some (coerced_at raw g) else coercedInputs acc f)"
  by (simp add: validate_step_def Let_def coerced_at_def split: option.splits)

lemma validate_step_errors:
  "errors (validate_step raw g acc) f =
     (if f = g then (case field_error raw g of Some e \<Rightarrow> Some e | None \<Rightarrow> errors acc g)
      else errors acc f)"
  by (simp add: validate_step_def Let_def coerced_at_def field_error_def split: option.splits)

lemma validate_step_isValid:
  "isValid (validate_step raw g acc) = (isValid acc \<and> field_error raw g = None)"
  by (auto simp add: validate_step_def Let_def coerced_at_def field_error_def split: option.splits)

lemma fold_validate_coerced:
  "coercedInputs (fold (validate_step raw) fs acc) f =
     (if f \<in> set fs then Some (coerced_at raw f) else coercedInputs acc f)"
  by (induction fs arbitrary: acc) (auto simp: validate_step_coerced)

lemma validate_step_keeps:
  "errors a g = Some e \<Longrightarrow> field_error raw g = Some e \<Longrightarrow>
   errors (validate_step raw x a) g = Some e"
  by (auto simp add: validate_step_errors)

lemma fold_validate_keeps:
  "errors a g = Some e \<Longrightarrow> field_error raw g = Some e \<Longrightarrow>
   errors (fold (validate_step raw) gs a) g = Some e"
  by (induction gs arbitrary: a) (simp_all add: validate_step_keeps)

lemma fold_validate_errors:
  "errors acc f = None \<Longrightarrow>
   errors (fold (validate_step raw) fs acc) f =
     (if f \<in> set fs then field_error raw f else None)"
proof (induction fs arbitrary: acc)
  case Nil
  then show ?case by simp
next
  case (Cons g fs)
  show ?case
  proof (cases "f = g")
    case False
    then have "errors (validate_step raw g acc) f = None"
      using Cons.prems by (simp add: validate_step_errors)
    from Cons.IH[OF this] False show ?thesis by simp
  next
    case True
    show ?thesis
    proof (cases "field_error raw g")
      case None
      then have "errors (validate_step raw g acc) f = None"
        using Cons.prems True by (simp add: validate_step_errors)
      from Cons.IH[OF this] True None show ?thesis by simp
    next
      case (Some e)
      have keep: "errors (fold (validate_step raw) gs a) g = Some e" if "errors a g = Some e" for gs a
        using that Some by (rule fold_validate_keeps)
      have "errors (validate_step raw g acc) g = Some e"
        by (simp add: validate_step_errors Some)
      from keep[OF this] True Some show ?thesis by simp
    qed
  qed
qed

lemma fold_validate_isValid:
  "isValid (fold (validate_step raw) fs acc) =
     (isValid acc \<and> list_all (\<lambda>f. field_error raw f = None) fs)"
  by (induction fs arbitrary: acc) (auto simp: validate_step_isValid)

lemma set_schema_fields: "f \<in> set schema_fields"
  by (cases f) (simp_all add: schema_fields_def)

lemma validate_fields_coerced:
  "coercedInputs (validate_fields raw) f = Some (coerced_at raw f)"
  by (simp add: validate_fields_def fold_validate_coerced set_schema_fields)

lemma validate_fields_errors: "errors (validate_fields raw) f = field_error raw f"
  by (simp add: validate_fields_def fold_validate_errors set_schema_fields)

lemma validate_fields_isValid:
  "isValid (validate_fields raw) = (\<forall>f. field_error raw f = None)"
  by (auto simp add: validate_fields_def fold_validate_isValid list_all_iff set_schema_fields)

lemma get_prop_coerced:
  "get_prop (coercedInputs (validate_fields raw)) f = coerced_at raw f"
  by (simp add: get_prop_def validate_fields_coerced)

lemma coerced_date:
  "coerceValue v TDate = JNull \<or> (\<exists>s. s \<noteq> [] \<and> coerceValue v TDate = JStr s)"
  by (cases v) (auto simp: coerceValue_def)

lemma validateCrossFields_coerced:
  "validateCrossFields now (coercedInputs (validate_fields raw)) =
     Inr (if ramp_exceeds raw then [(UtilisationRampMonths, RampExceedsHorizon)] else [],
          console_of now raw)"
proof -
  have "coerced_at raw StartMonth = JNull
        \<or> (\<exists>s. s \<noteq> [] \<and> coerced_at raw StartMonth = JStr s)"
    using coerced_date[of "get_prop raw StartMonth"] by (simp add: coerced_at_def)
  then show ?thesis
    by (auto simp: validateCrossFields_def get_prop_coerced ramp_exceeds_def console_of_def Let_def)
qed

lemma validateInputs_eq:
  "validateInputs now raw =
     Inr (\<lparr> isValid = ((\<forall>f. field_error raw f = None) \<and> \<not> ramp_exceeds raw),
            errors = (\<lambda>f. if f = UtilisationRampMonths \<and> ramp_exceeds raw
                          then Some RampExceedsHorizon else field_error raw f),
            coercedInputs = (\<lambda>f. Some (coerced_at raw f)) \<rparr>,
          console_of now raw)"
proof -
  have c: "coercedInputs (validate_fields raw) = (\<lambda>f. Some (coerced_at raw f))"
    by (rule ext) (simp add: validate_fields_coerced)
  have e: "errors (validate_fields raw) = field_error raw"
    by (rule ext) (simp add: validate_fields_errors)
  show ?thesis
    unfolding validateInputs_def Let_def validateCrossFields_coerced
    by (cases "validate_fields raw")
       (use c e validate_fields_isValid[of raw] in \<open>auto simp: assign_def fun_eq_iff\<close>)
qed

section \<open>Scenario adjustment\<close>

lemma applyScenario_eq:
  "applyScenario inputs scenario =
     (if scenario = ''conservative'' then scale3 (Fin 0.75) inputs
      else if scenario = ''aggressive'' then scale3 (Fin 1.25) inputs
      else inputs)"
  by (simp add: applyScenario_def applyScenario_store_def Let_def)

lemma simple_applyScenario_eq:
  "simple_applyScenario inputs scenario =
     (if scenario = ''conservative'' then scale3 (Fin 0.75) inputs
      else if scenario = ''aggressive'' then scale3 (Fin 1.25) inputs
      else inputs)"
  by (simp add: simple_applyScenario_def simple_applyScenario_store_def Let_def)

text \<open>
  Claim C3. For every input record and every scenario string, both versions of
  \<open>applyScenario\<close> return the input for \<open>base\<close> and for any string other than
  \<open>conservative\<close> and \<open>aggressive\<close>; \<open>conservative\<close> multiplies exactly the three
  fields \<open>fuelSavingsPct\<close>, \<open>accidentReductionPct\<close> and \<open>insuranceReductionPct\<close> by 0.75
  and \<open>aggressive\<close> by 1.25, every other field being unchanged. In the store, the
  argument object and every object allocated before the call are as they were, and the
  result is a new object.
\<close>

theorem applyScenario_scales_three_fields:
  assumes "a < length store"
  shows
    "(scenario \<noteq> ''conservative'' \<and> scenario \<noteq> ''aggressive'' \<longrightarrow>
        applyScenario inputs scenario = inputs \<and> simple_applyScenario inputs scenario = inputs)
     \<and> applyScenario inputs ''base'' = inputs
     \<and> simple_applyScenario inputs ''base'' = inputs
     \<and> applyScenario inputs ''conservative'' =
         inputs\<lparr> fuelSavingsPct := js_mul (fuelSavingsPct inputs) (Fin 0.75),
                 accidentReductionPct := js_mul (accidentReductionPct inputs) (Fin 0.75),
                 insuranceReductionPct := js_mul (insuranceReductionPct inputs) (Fin 0.75) \<rparr>
     \<and> applyScenario inputs ''aggressive'' =
         inputs\<lparr> fuelSavingsPct := js_mul (fuelSavingsPct inputs) (Fin 1.25),
                 accidentReductionPct := js_mul (accidentReductionPct inputs) (Fin 1.25),
                 insuranceReductionPct := js_mul (insuranceReductionPct inputs) (Fin 1.25) \<rparr>
     \<and> simple_applyScenario inputs scenario = applyScenario inputs scenario
     \<and> fst (applyScenario_store store a scenario) ! a = store ! a
     \<and> take (length store) (fst (applyScenario_store store a scenario)) = store
     \<and> snd (applyScenario_store store a scenario) = length store
     \<and> fst (applyScenario_store store a scenario) ! snd (applyScenario_store store a scenario)
         = applyScenario (store ! a) scenario
     \<and> simple_applyScenario_store store a scenario = applyScenario_store store a scenario"
proof -
  have 1: "scenario \<noteq> ''conservative'' \<and> scenario \<noteq> ''aggressive'' \<longrightarrow>
        applyScenario inputs scenario = inputs \<and> simple_applyScenario inputs scenario = inputs"
    by (simp add: applyScenario_eq simple_applyScenario_eq)
  have 2: "applyScenario inputs ''base'' = inputs" "simple_applyScenario inputs ''base'' = inputs"
    by (simp_all add: applyScenario_eq simple_applyScenario_eq)
  have 3: "applyScenario inputs ''conservative'' =
         inputs\<lparr> fuelSavingsPct := js_mul (fuelSavingsPct inputs) (Fin 0.75),
                 accidentReductionPct := js_mul (accidentReductionPct inputs) (Fin 0.75),
                 insuranceReductionPct := js_mul (insuranceReductionPct inputs) (Fin 0.75) \<rparr>"
    by (simp add: applyScenario_eq scale3_def)
  have 4: "applyScenario inputs ''aggressive'' =
         inputs\<lparr> fuelSavingsPct := js_mul (fuelSavingsPct inputs) (Fin 1.25),
                 accidentReductionPct := js_mul (accidentReductionPct inputs) (Fin 1.25),
                 insuranceReductionPct := js_mul (insuranceReductionPct inputs) (Fin 1.25) \<rparr>"
    by (simp add: applyScenario_eq scale3_def)
  have 5: "simple_applyScenario inputs scenario = applyScenario inputs scenario"
    by (simp add: applyScenario_eq simple_applyScenario_eq)
  have 6: "fst (applyScenario_store store a scenario) ! a = store ! a"
    using assms by (simp add: applyScenario_store_def Let_def nth_append)
  have 7: "take (length store) (fst (applyScenario_store store a scenario)) = store"
    by (simp add: applyScenario_store_def Let_def)
  have 8: "snd (applyScenario_store store a scenario) = length store"
    by (simp add: applyScenario_store_def Let_def)
  have 9: "fst (applyScenario_store store a scenario) ! snd (applyScenario_store store a scenario)
         = applyScenario (store ! a) scenario"
    using assms by (simp add: applyScenario_store_def Let_def nth_append applyScenario_eq)
  have 10: "simple_applyScenario_store store a scenario = applyScenario_store store a scenario"
    by (simp add: applyScenario_store_def simple_applyScenario_store_def)
  from 1 2 3 4 5 6 7 8 9 10 show ?thesis by blast
qed

theorem applyScenario_scales_three_fields_witness:
  "(0::nat) < length [fixture_inputs]
   \<and> fuelSavingsPct (applyScenario fixture_inputs ''aggressive'') = Fin 7.5
   \<and> accidentReductionPct (applyScenario fixture_inputs ''aggressive'') = Fin 37.5
   \<and> insuranceReductionPct (applyScenario fixture_inputs ''aggressive'') = Fin 10
   \<and> adoptionPct (applyScenario fixture_inputs ''aggressive'') = Fin 90
   \<and> applyScenario fixture_inputs ''optimistic'' = fixture_inputs
   \<and> fst (applyScenario_store [fixture_inputs] 0 ''aggressive'') ! 0 = fixture_inputs"
  using applyScenario_scales_three_fields [of 0 "[fixture_inputs]" "''aggressive''" fixture_inputs]
        applyScenario_scales_three_fields [of 0 "[fixture_inputs]" "''optimistic''" fixture_inputs]
  by (simp add: fixture_inputs_def)

section \<open>Validated inputs are finite\<close>

lemma coerce_not_NaN: "coerceValue v t \<noteq> JNum NaN"
  by (cases t) (auto simp: coerceValue_def Let_def split: jsval.splits if_splits)

lemma schema_bounds:
  "stype (validationSchema f) = TInteger \<or> stype (validationSchema f) = TNumber \<Longrightarrow>
   smin (validationSchema f) \<noteq> None \<and> smax (validationSchema f) \<noteq> None"
  by (cases f) simp_all

lemma validateField_number:
  assumes "validateField f v sch = None"
    and "stype sch = TInteger \<or> stype sch = TNumber"
    and "smin sch = Some lo" and "smax sch = Some hi"
    and "v \<noteq> JNum NaN"
  shows "\<exists>x. v = JNum (Fin x) \<and> lo \<le> x \<and> x \<le> hi
            \<and> (stype sch = TInteger \<longrightarrow> of_int \<lfloor>x\<rfloor> = x)"
proof -
  from assms(1,2) obtain n where v: "v = JNum n"
    by (cases v) (auto simp: validateField_def split: if_splits)
  from assms(1) have r: "check_range f v sch = None"
    by (auto simp: validateField_def split: if_splits option.splits)
  from assms(1) have i: "stype sch = TInteger \<longrightarrow> js_isInteger n"
    by (auto simp: validateField_def v split: if_splits)
  from assms(5) v have nn: "n \<noteq> NaN" by simp
  show ?thesis
  proof (cases n)
    case (Fin x)
    with r i v assms(3,4) show ?thesis
      by (auto simp: check_range_def js_gt_def split: if_splits)
  next
    case PosInf
    with r v assms(3,4) show ?thesis
      by (auto simp: check_range_def js_gt_def split: if_splits)
  next
    case NegInf
    with r v assms(3,4) show ?thesis
      by (auto simp: check_range_def js_gt_def split: if_splits)
  next
    case NaN
    with nn show ?thesis by simp
  qed
qed

lemma numeric_field_ok:
  assumes "field_error raw f = None"
    and "stype (validationSchema f) = TInteger \<or> stype (validationSchema f) = TNumber"
  shows "\<exists>x lo hi. coerced_at raw f = JNum (Fin x)
            \<and> smin (validationSchema f) = Some lo \<and> smax (validationSchema f) = Some hi
            \<and> lo \<le> x \<and> x \<le> hi
            \<and> (stype (validationSchema f) = TInteger \<longrightarrow> of_int \<lfloor>x\<rfloor> = x)"
proof -
  from schema_bounds[OF assms(2)] obtain lo hi
    where b: "smin (validationSchema f) = Some lo" "smax (validationSchema f) = Some hi"
    by auto
  have nn: "coerced_at raw f \<noteq> JNum NaN"
    by (simp add: coerced_at_def coerce_not_NaN)
  from validateField_number[OF assms(1)[unfolded field_error_def] assms(2) b nn] b
  show ?thesis by blast
qed

lemma string_field_ok:
  assumes "field_error raw f = None"
    and "stype (validationSchema f) = TString \<or> stype (validationSchema f) = TDate"
  shows "\<exists>s. coerced_at raw f = JStr s"
proof -
  have "coerced_at raw f = JNull \<or> (\<exists>s. coerced_at raw f = JStr s)"
    using assms(2)
    by (cases "get_prop raw f") (auto simp: coerced_at_def coerceValue_def)
  with assms(1) show ?thesis
    by (auto simp: field_error_def validateField_def)
qed

lemma conforms_valid:
  assumes "\<forall>f. field_error raw f = None"
  shows "conforms (\<lambda>f. Some (coerced_at raw f)) f"
proof (cases "stype (validationSchema f) = TInteger \<or> stype (validationSchema f) = TNumber")
  case True
  from numeric_field_ok[OF assms[rule_format] True] True show ?thesis
    by (auto simp: conforms_def get_prop_def)
next
  case False
  then have sd: "stype (validationSchema f) = TString \<or> stype (validationSchema f) = TDate"
    by (cases "stype (validationSchema f)") auto
  from string_field_ok[OF assms[rule_format] sd] sd show ?thesis
    by (auto simp: conforms_def get_prop_def)
qed

lemma validated_shape:
  assumes "validated_inputs now raw = Some I"
  shows "(\<forall>f. field_error raw f = None)" and "\<not> ramp_exceeds raw"
    and "asInputs (\<lambda>f. Some (coerced_at raw f)) = Some I"
  using assms
  by (auto simp: validated_inputs_def validateInputs_eq split: if_splits)

lemma is_Fin_coerced:
  assumes "\<forall>f. field_error raw f = None"
    and "stype (validationSchema f) = TInteger \<or> stype (validationSchema f) = TNumber"
  shows "is_Fin (the_num (get_prop (\<lambda>f. Some (coerced_at raw f)) f))"
  using numeric_field_ok[OF assms(1)[rule_format] assms(2)]
  by (auto simp: get_prop_def)

lemma asInputs_fields:
  assumes "asInputs obj = Some I"
  shows "vehicleCount I = the_num (get_prop obj VehicleCount)"
    "annualKmPerVehicle I = the_num (get_prop obj AnnualKmPerVehicle)"
    "fuelConsumptionLPer100km I = the_num (get_prop obj FuelConsumptionLPer100km)"
    "fuelPricePerLitre I = the_num (get_prop obj FuelPricePerLitre)"
    "baselineAccidentsPerYear I = the_num (get_prop obj BaselineAccidentsPerYear)"
    "avgAccidentCost I = the_num (get_prop obj AvgAccidentCost)"
    "annualInsurancePremium I = the_num (get_prop obj AnnualInsurancePremium)"
    "fuelSavingsPct I = the_num (get_prop obj FuelSavingsPct)"
    "accidentReductionPct I = the_num (get_prop obj AccidentReductionPct)"
    "insuranceReductionPct I = the_num (get_prop obj InsuranceReductionPct)"
    "adoptionPct I = the_num (get_prop obj AdoptionPct)"
    "hardwareCostPerVehicle I = the_num (get_prop obj HardwareCostPerVehicle)"
    "subscriptionPerVehiclePerMonth I = the_num (get_prop obj SubscriptionPerVehiclePerMonth)"
    "implementationOneOff I = the_num (get_prop obj ImplementationOneOff)"
    "trainingOneOff I = the_num (get_prop obj TrainingOneOff)"
    "timeHorizonYears I = the_num (get_prop obj TimeHorizonYears)"
    "discountRatePct I = the_num (get_prop obj DiscountRatePct)"
    "utilisationRampMonths I = the_num (get_prop obj UtilisationRampMonths)"
    "resaleRecoveryPctHardware I = the_num (get_prop obj ResaleRecoveryPctHardware)"
    "maintenancePerVehiclePerYear I = the_num (get_prop obj MaintenancePerVehiclePerYear)"
  using assms by (auto simp: asInputs_def split: if_splits)

lemma validated_finite:
  assumes "validated_inputs now raw = Some I"
  shows "finite_inputs I"
proof -
  note s = validated_shape[OF assms]
  note fs = asInputs_fields[OF s(3)]
  show ?thesis
    unfolding finite_inputs_def fs
    by (intro conjI is_Fin_coerced[OF s(1)]) simp_all
qed

lemma validated_horizon_ramp:
  assumes "validated_inputs now raw = Some I"
  shows "\<exists>h r. timeHorizonYears I = Fin (real h) \<and> 1 \<le> h \<and> h \<le> 10
            \<and> utilisationRampMonths I = Fin (real r) \<and> r \<le> 24 \<and> r \<le> h * 12"
proof -
  note s = validated_shape[OF assms]
  note fs = asInputs_fields[OF s(3)]
  from numeric_field_ok[OF s(1)[rule_format], of TimeHorizonYears]
  obtain x where x: "coerced_at raw TimeHorizonYears = JNum (Fin x)" "1 \<le> x" "x \<le> 10"
    "of_int \<lfloor>x\<rfloor> = x" by auto
  from numeric_field_ok[OF s(1)[rule_format], of UtilisationRampMonths]
  obtain y where y: "coerced_at raw UtilisationRampMonths = JNum (Fin y)" "0 \<le> y" "y \<le> 24"
    "of_int \<lfloor>y\<rfloor> = y" by auto
  define h where "h = nat \<lfloor>x\<rfloor>"
  define r where "r = nat \<lfloor>y\<rfloor>"
  have hx: "real h = x" using x by (simp add: h_def)
  have ry: "real r = y" using y by (simp add: r_def)
  have le: "y \<le> x * 12"
    using s(2) by (simp add: ramp_exceeds_def x y js_gt_def)
  have "timeHorizonYears I = Fin (real h)" by (simp add: fs get_prop_def x hx)
  moreover have "utilisationRampMonths I = Fin (real r)" by (simp add: fs get_prop_def y ry)
  moreover have "1 \<le> h" "h \<le> 10" using x hx by linarith+
  moreover have "r \<le> 24" using y ry by linarith
  moreover have "r \<le> h * 12"
  proof -
    have "real r \<le> real (h * 12)" using le hx ry by simp
    then show ?thesis by linarith
  qed
  ultimately show ?thesis by blast
qed

section \<open>The timeline of a finite record\<close>

lemma scenario_finite: "finite_inputs I \<Longrightarrow> finite_inputs (applyScenario I sc)"
  by (simp add: applyScenario_eq scale3_def finite_inputs_def is_Fin_mul)

lemma scenario_keeps:
  "timeHorizonYears (applyScenario I sc) = timeHorizonYears I"
  "utilisationRampMonths (applyScenario I sc) = utilisationRampMonths I"
  by (simp_all add: applyScenario_eq scale3_def)

lemma is_Fin_annualSavings: "finite_inputs I \<Longrightarrow> is_Fin (annualSavings I)"
  by (simp add: annualSavings_def calculateTotalSavings_def calculateFuelSavings_def
      calculateBaselineFuelCost_def calculateAccidentSavings_def calculateInsuranceSavings_def
      finite_inputs_def Let_def is_Fin_add is_Fin_mul is_Fin_div)

lemma is_Fin_costs:
  assumes "finite_inputs I"
  shows "is_Fin (capexHardware (calculateProgramCosts I))"
    "is_Fin (opexSubscriptionAnnual (calculateProgramCosts I))"
    "is_Fin (oneOff (calculateProgramCosts I))"
    "is_Fin (maintenanceAnnual (calculateProgramCosts I))"
  using assms
  by (simp_all add: calculateProgramCosts_def finite_inputs_def is_Fin_add is_Fin_mul)

lemma is_Fin_monthlySavings: "is_Fin S \<Longrightarrow> is_Fin (monthlySavings S i (Fin (real r)))"
  by (simp add: monthlySavings_def is_Fin_mul is_Fin_div is_Fin_rampFactor)

lemma is_Fin_monthlyCosts:
  assumes "finite_inputs I"
  shows "is_Fin (monthlyCosts I (calculateProgramCosts I) tm i)"
proof -
  note c = is_Fin_costs[OF assms]
  have r: "is_Fin (resaleRecoveryPctHardware I)" using assms by (simp add: finite_inputs_def)
  show ?thesis
    by (simp add: monthlyCosts_def Let_def c r is_Fin_add is_Fin_sub is_Fin_mul is_Fin_div)
qed

lemma is_Fin_netFlowAt:
  assumes "finite_inputs I" "utilisationRampMonths I = Fin (real r)"
  shows "is_Fin (netFlowAt I (annualSavings I) (calculateProgramCosts I) tm i)"
  by (simp add: netFlowAt_def assms(2) is_Fin_sub is_Fin_monthlySavings
      is_Fin_annualSavings[OF assms(1)] is_Fin_monthlyCosts[OF assms(1)])

lemma calculateTimeline_eq:
  assumes "timeHorizonYears I = Fin (real h)"
  shows "calculateTimeline I (annualSavings I) (calculateProgramCosts I) =
           Some (horizon_timeline I (h * 12))"
proof -
  have tm: "js_mul (timeHorizonYears I) (Fin 12) = Fin (real (h * 12))"
    by (simp add: assms)
  have loop:
    "timeline_loop I (annualSavings I) (calculateProgramCosts I) (Fin (real (h * 12))) 0
       (empty_timeline, Fin 0) =
     Some (fold (timeline_body I (annualSavings I) (calculateProgramCosts I)
                   (Fin (real (h * 12)))) [0..<h * 12] (empty_timeline, Fin 0))"
    by (rule timeline_loop_fold) simp
  show ?thesis
    unfolding calculateTimeline_def Let_def tm loop fold_timeline_body
    by (simp add: empty_timeline_def horizon_timeline_def Let_def del: of_nat_mult)
qed

lemma calculateROI_eq:
  assumes "timeHorizonYears I = Fin (real h)"
  shows "\<exists>out. calculateROI I = Some out
           \<and> timeline out = horizon_timeline I (h * 12)
           \<and> paybackMonths out = calculatePayback (cumNetMonthly (horizon_timeline I (h * 12)))
           \<and> totalSavingsAnnual out = annualSavings I"
  using calculateTimeline_eq[OF assms]
  by (simp add: calculateROI_def Let_def annualSavings_def CalculationOutputs.defs
      ProgramCosts.defs)

lemma horizon_timeline_lengths:
  "length (months (horizon_timeline I n)) = n"
  "length (savingsMonthly (horizon_timeline I n)) = n"
  "length (costsMonthly (horizon_timeline I n)) = n"
  "length (netMonthly (horizon_timeline I n)) = n"
  "length (cumNetMonthly (horizon_timeline I n)) = n"
  by (simp_all add: horizon_timeline_def Let_def length_running_sum)

lemma horizon_timeline_nth:
  assumes "i < n"
  shows "savingsMonthly (horizon_timeline I n) ! i =
           monthlySavings (annualSavings I) i (utilisationRampMonths I)"
    "costsMonthly (horizon_timeline I n) ! i =
           monthlyCosts I (calculateProgramCosts I) (Fin (real n)) i"
    "netMonthly (horizon_timeline I n) ! i =
           js_sub (savingsMonthly (horizon_timeline I n) ! i)
                  (costsMonthly (horizon_timeline I n) ! i)"
    "months (horizon_timeline I n) ! i = Fin (real i + 1)"
  using assms by (simp_all add: horizon_timeline_def Let_def netFlowAt_def)

lemma horizon_timeline_cum:
  "0 < n \<Longrightarrow> cumNetMonthly (horizon_timeline I n) ! 0 =
      js_add (Fin 0) (netMonthly (horizon_timeline I n) ! 0)"
  "Suc i < n \<Longrightarrow> cumNetMonthly (horizon_timeline I n) ! Suc i =
      js_add (cumNetMonthly (horizon_timeline I n) ! i) (netMonthly (horizon_timeline I n) ! Suc i)"
  by (simp_all add: horizon_timeline_def Let_def running_sum_0 running_sum_Suc)

lemma horizon_timeline_finite:
  assumes "finite_inputs I" "utilisationRampMonths I = Fin (real r)" "i < n"
  shows "is_Fin (savingsMonthly (horizon_timeline I n) ! i)"
    "is_Fin (costsMonthly (horizon_timeline I n) ! i)"
    "is_Fin (netMonthly (horizon_timeline I n) ! i)"
    "is_Fin (cumNetMonthly (horizon_timeline I n) ! i)"
    "is_Fin (months (horizon_timeline I n) ! i)"
proof -
  show "is_Fin (savingsMonthly (horizon_timeline I n) ! i)"
    by (simp add: horizon_timeline_nth[OF assms(3)] assms(2) is_Fin_monthlySavings
        is_Fin_annualSavings[OF assms(1)])
  show "is_Fin (costsMonthly (horizon_timeline I n) ! i)"
    by (simp add: horizon_timeline_nth[OF assms(3)] is_Fin_monthlyCosts[OF assms(1)])
  have n: "list_all is_Fin (map (netFlowAt I (annualSavings I) (calculateProgramCosts I) (Fin (real n))) [0..<n])"
    by (simp add: list_all_iff is_Fin_netFlowAt[OF assms(1,2)])
  then show "is_Fin (netMonthly (horizon_timeline I n) ! i)"
    using assms(3) by (simp add: horizon_timeline_def Let_def list_all_length)
  have "list_all is_Fin (cumNetMonthly (horizon_timeline I n))"
    using is_Fin_running_sum[OF _ n, of "Fin 0"] by (simp add: horizon_timeline_def Let_def)
  then show "is_Fin (cumNetMonthly (horizon_timeline I n) ! i)"
    using assms(3) by (simp add: list_all_length horizon_timeline_lengths)
  show "is_Fin (months (horizon_timeline I n) ! i)"
    by (simp add: horizon_timeline_nth[OF assms(3)])
qed

section \<open>The reference inputs validate\<close>

lemmas parse_defs = parseFloat_str_def parseInt_str_def scan_decimal_def scan_unsigned_def
  split_sign_def scan_fraction_def scan_exponent_def is_digit_def is_ws_def digits_val_def
  digit_val_def decimal_to_double_def to_double_def nearest_multiple_def
  binary_exponent_def round_half_even_def bits.simps

lemma fixture_coerced: "coerced_at fixture_raw f = field_value fixture_inputs f"
  by (cases f)
     (simp_all add: coerced_at_def fixture_raw_def get_prop_def coerceValue_def parse_defs
        fixture_inputs_def is_year_month_def date_ok_def Let_def)

lemma field_value_valid:
  "validateField f (field_value fixture_inputs f) (validationSchema f) = None"
  by (cases f)
     (simp_all add: fixture_inputs_def validateField_def check_range_def check_allowed_def
        js_gt_def)

lemma fixture_errors: "field_error fixture_raw f = None"
  by (simp add: field_error_def fixture_coerced field_value_valid)

lemma fixture_ramp: "\<not> ramp_exceeds fixture_raw"
  by (simp add: ramp_exceeds_def fixture_coerced fixture_inputs_def js_gt_def)

lemma asInputs_toObject: "asInputs (\<lambda>f. Some (field_value r f)) = Some r"
  by (simp add: asInputs_def schema_fields_def conforms_def get_prop_def)

lemma fixture_validated: "validated_inputs now fixture_raw = Some fixture_inputs"
  by (simp add: validated_inputs_def validateInputs_eq fixture_errors fixture_ramp
      fixture_coerced asInputs_toObject)

section \<open>The engine on validated inputs\<close>

lemma performCalculation_validated:
  "validated_inputs now raw = Some inputs \<Longrightarrow>
   performCalculation now raw scenario = calculateROI (applyScenario inputs scenario)"
  by (simp add: performCalculation_def)

lemma js_seq_eqI: "is_Fin a \<Longrightarrow> a = b \<Longrightarrow> js_seq a b"
  by (auto simp: is_Fin_seq)

lemma engine_on_validated:
  assumes "validated_inputs now raw = Some inputs"
  shows "\<exists>out h r. timeHorizonYears inputs = Fin (real h) \<and> 1 \<le> h \<and> h \<le> 10
      \<and> utilisationRampMonths inputs = Fin (real r) \<and> r \<le> 24 \<and> r \<le> h * 12
      \<and> finite_inputs (applyScenario inputs scenario)
      \<and> utilisationRampMonths (applyScenario inputs scenario) = Fin (real r)
      \<and> calculateROI (applyScenario inputs scenario) = Some out
      \<and> timeline out = horizon_timeline (applyScenario inputs scenario) (h * 12)
      \<and> paybackMonths out = calculatePayback (cumNetMonthly (timeline out))
      \<and> totalSavingsAnnual out = annualSavings (applyScenario inputs scenario)"
proof -
  from validated_horizon_ramp[OF assms] obtain h r where
    hr: "timeHorizonYears inputs = Fin (real h)" "1 \<le> h" "h \<le> 10"
        "utilisationRampMonths inputs = Fin (real r)" "r \<le> 24" "r \<le> h * 12"
    by blast
  have f: "finite_inputs (applyScenario inputs scenario)"
    by (rule scenario_finite[OF validated_finite[OF assms]])
  have "timeHorizonYears (applyScenario inputs scenario) = Fin (real h)"
    by (simp add: scenario_keeps hr)
  from calculateROI_eq[OF this] obtain out where
    "calculateROI (applyScenario inputs scenario) = Some out"
    "timeline out = horizon_timeline (applyScenario inputs scenario) (h * 12)"
    "paybackMonths out = calculatePayback (cumNetMonthly (horizon_timeline (applyScenario inputs scenario) (h * 12)))"
    "totalSavingsAnnual out = annualSavings (applyScenario inputs scenario)"
    by blast
  with hr f show ?thesis by (simp add: scenario_keeps)
qed

text \<open>
  Claim C8. For every validated input and every scenario, the engine returns, the five
  timeline arrays have length \<open>timeHorizonYears * 12\<close>, and they satisfy
  \<open>cumNetMonthly[0] == netMonthly[0]\<close>,
  \<open>cumNetMonthly[i] == cumNetMonthly[i-1] + netMonthly[i]\<close> for every later index of the
  horizon, and \<open>netMonthly[i] == savingsMonthly[i] - costsMonthly[i]\<close>.
\<close>

theorem timeline_recurrence:
  assumes "validated_inputs now raw = Some inputs"
  shows "\<exists>out h. timeHorizonYears inputs = Fin (real h) \<and> 1 \<le> h
      \<and> calculateROI (applyScenario inputs scenario) = Some out
      \<and> length (months (timeline out)) = h * 12
      \<and> length (savingsMonthly (timeline out)) = h * 12
      \<and> length (costsMonthly (timeline out)) = h * 12
      \<and> length (netMonthly (timeline out)) = h * 12
      \<and> length (cumNetMonthly (timeline out)) = h * 12
      \<and> js_seq (cumNetMonthly (timeline out) ! 0) (netMonthly (timeline out) ! 0)
      \<and> (\<forall>i. 1 \<le> i \<and> i < h * 12 \<longrightarrow>
            js_seq (cumNetMonthly (timeline out) ! i)
                   (js_add (cumNetMonthly (timeline out) ! (i - 1))
                           (netMonthly (timeline out) ! i)))
      \<and> (\<forall>i. i < h * 12 \<longrightarrow>
            js_seq (netMonthly (timeline out) ! i)
                   (js_sub (savingsMonthly (timeline out) ! i)
                           (costsMonthly (timeline out) ! i)))"
proof -
  from engine_on_validated[OF assms, of scenario] obtain out h r where
    e: "timeHorizonYears inputs = Fin (real h)" "1 \<le> h"
       "finite_inputs (applyScenario inputs scenario)"
       "utilisationRampMonths (applyScenario inputs scenario) = Fin (real r)"
       "calculateROI (applyScenario inputs scenario) = Some out"
       "timeline out = horizon_timeline (applyScenario inputs scenario) (h * 12)"
    by blast
  let ?t = "horizon_timeline (applyScenario inputs scenario) (h * 12)"
  note fin = horizon_timeline_finite[OF e(3,4)]
  have pos: "0 < h * 12" using e(2) by simp
  have c0: "js_seq (cumNetMonthly ?t ! 0) (netMonthly ?t ! 0)"
    using fin(3,4)[OF pos] horizon_timeline_cum(1)[OF pos, of "applyScenario inputs scenario"]
    by (simp add: js_seq_eqI add_zero_Fin)
  have cs: "js_seq (cumNetMonthly ?t ! i) (js_add (cumNetMonthly ?t ! (i - 1)) (netMonthly ?t ! i))"
    if "1 \<le> i \<and> i < h * 12" for i
  proof -
    from that obtain j where j: "i = Suc j" by (cases i) auto
    with that have "Suc j < h * 12" by simp
    have lt: "Suc j < h * 12" using that j by simp
    have "is_Fin (cumNetMonthly ?t ! Suc j)" by (rule fin(4)[OF lt])
    moreover have "cumNetMonthly ?t ! Suc j =
        js_add (cumNetMonthly ?t ! j) (netMonthly ?t ! Suc j)"
      by (rule horizon_timeline_cum(2)[OF lt])
    ultimately show ?thesis unfolding j by (simp add: js_seq_eqI)
  qed
  have ns: "js_seq (netMonthly ?t ! i) (js_sub (savingsMonthly ?t ! i) (costsMonthly ?t ! i))"
    if "i < h * 12" for i
    using horizon_timeline_nth(3)[OF that, of "applyScenario inputs scenario"] fin(3)[OF that]
    by (simp add: js_seq_eqI)
  show ?thesis
    using e(1,2,5) c0 cs ns
    by (intro exI[of _ out] exI[of _ h]) (simp add: e(6) horizon_timeline_lengths)
qed

theorem timeline_recurrence_witness:
  "validated_inputs (2025, 0) fixture_raw = Some fixture_inputs
   \<and> (\<exists>out. calculateROI (applyScenario fixture_inputs ''base'') = Some out
      \<and> length (months (timeline out)) = 36
      \<and> length (cumNetMonthly (timeline out)) = 36
      \<and> js_seq (cumNetMonthly (timeline out) ! 0) (netMonthly (timeline out) ! 0)
      \<and> js_seq (cumNetMonthly (timeline out) ! 1)
                (js_add (cumNetMonthly (timeline out) ! 0) (netMonthly (timeline out) ! 1))
      \<and> js_seq (netMonthly (timeline out) ! 35)
                (js_sub (savingsMonthly (timeline out) ! 35)
                        (costsMonthly (timeline out) ! 35)))"
proof -
  from timeline_recurrence [OF fixture_validated [of "(2025, 0)"], where scenario = "''base''"]
  obtain out h where
    w: "timeHorizonYears fixture_inputs = Fin (real h)"
       "calculateROI (applyScenario fixture_inputs ''base'') = Some out"
       "length (months (timeline out)) = h * 12"
       "length (cumNetMonthly (timeline out)) = h * 12"
       "js_seq (cumNetMonthly (timeline out) ! 0) (netMonthly (timeline out) ! 0)"
       "\<forall>i. 1 \<le> i \<and> i < h * 12 \<longrightarrow>
            js_seq (cumNetMonthly (timeline out) ! i)
                   (js_add (cumNetMonthly (timeline out) ! (i - 1))
                           (netMonthly (timeline out) ! i))"
       "\<forall>i. i < h * 12 \<longrightarrow>
            js_seq (netMonthly (timeline out) ! i)
                   (js_sub (savingsMonthly (timeline out) ! i)
                           (costsMonthly (timeline out) ! i))"
    by blast
  have h: "h = 3" using w(1) by (simp add: fixture_inputs_def)
  from w(6)[rule_format, of 1] h have a: "js_seq (cumNetMonthly (timeline out) ! 1)
                (js_add (cumNetMonthly (timeline out) ! 0) (netMonthly (timeline out) ! 1))"
    by simp
  from w(7)[rule_format, of 35] h have b: "js_seq (netMonthly (timeline out) ! 35)
                (js_sub (savingsMonthly (timeline out) ! 35) (costsMonthly (timeline out) ! 35))"
    by simp
  from w(2,3,4,5) a b h fixture_validated [of "(2025, 0)"] show ?thesis by simp
qed

text \<open>
  Claim C4. For every validated input and every month index \<open>i\<close> below
  \<open>timeHorizonYears * 12\<close>, the ramp factor is \<open>(i + 1) / utilisationRampMonths\<close> when
  \<open>i < utilisationRampMonths\<close> and 1 otherwise, and it is the factor applied to the
  monthly savings. The ramp is divided by only when it is not zero, every entry of the
  timeline is a finite number, and with a ramp of zero the factor is 1 from the first
  month.
\<close>

theorem ramp_factor_applied:
  assumes "validated_inputs now raw = Some inputs"
  shows "\<exists>out h r. timeHorizonYears inputs = Fin (real h)
      \<and> utilisationRampMonths inputs = Fin (real r)
      \<and> calculateROI (applyScenario inputs scenario) = Some out
      \<and> (\<forall>i. i < h * 12 \<longrightarrow>
            rampFactor i (utilisationRampMonths inputs) =
              (if i < r then Fin ((real i + 1) / real r) else Fin 1)
            \<and> savingsMonthly (timeline out) ! i =
                js_mul (js_div (totalSavingsAnnual out) (Fin 12))
                       (rampFactor i (utilisationRampMonths inputs))
            \<and> is_Fin (savingsMonthly (timeline out) ! i)
            \<and> is_Fin (costsMonthly (timeline out) ! i)
            \<and> is_Fin (netMonthly (timeline out) ! i)
            \<and> is_Fin (cumNetMonthly (timeline out) ! i))
      \<and> (\<forall>i. js_lt (Fin (real i)) (utilisationRampMonths inputs) \<longrightarrow>
            utilisationRampMonths inputs \<noteq> Fin 0)
      \<and> (r = 0 \<longrightarrow> (\<forall>i. rampFactor i (utilisationRampMonths inputs) = Fin 1))"
proof -
  from engine_on_validated[OF assms, of scenario] obtain out h r where
    e: "timeHorizonYears inputs = Fin (real h)"
       "utilisationRampMonths inputs = Fin (real r)"
       "finite_inputs (applyScenario inputs scenario)"
       "utilisationRampMonths (applyScenario inputs scenario) = Fin (real r)"
       "calculateROI (applyScenario inputs scenario) = Some out"
       "timeline out = horizon_timeline (applyScenario inputs scenario) (h * 12)"
       "totalSavingsAnnual out = annualSavings (applyScenario inputs scenario)"
    by blast
  let ?t = "horizon_timeline (applyScenario inputs scenario) (h * 12)"
  note fin = horizon_timeline_finite[OF e(3,4)]
  have month: "rampFactor i (utilisationRampMonths inputs) =
              (if i < r then Fin ((real i + 1) / real r) else Fin 1)
            \<and> savingsMonthly (timeline out) ! i =
                js_mul (js_div (totalSavingsAnnual out) (Fin 12))
                       (rampFactor i (utilisationRampMonths inputs))
            \<and> is_Fin (savingsMonthly (timeline out) ! i)
            \<and> is_Fin (costsMonthly (timeline out) ! i)
            \<and> is_Fin (netMonthly (timeline out) ! i)
            \<and> is_Fin (cumNetMonthly (timeline out) ! i)" if "i < h * 12" for i
  proof -
    have "savingsMonthly ?t ! i =
            js_mul (js_div (annualSavings (applyScenario inputs scenario)) (Fin 12))
                   (rampFactor i (Fin (real r)))"
      by (simp add: horizon_timeline_nth(1)[OF that] e(4) monthlySavings_def)
    then show ?thesis
      using fin(1,2,3,4)[OF that]
      by (simp add: e(2,6,7) rampFactor_nat)
  qed
  have nz: "utilisationRampMonths inputs \<noteq> Fin 0"
    if "js_lt (Fin (real i)) (utilisationRampMonths inputs)" for i
    using that by (auto simp: e(2))
  have z: "rampFactor i (utilisationRampMonths inputs) = Fin 1" if "r = 0" for i
    using that by (simp add: e(2) rampFactor_def)
  show ?thesis
    using e(1,2,5) month nz z by blast
qed

theorem ramp_factor_applied_witness:
  "validated_inputs (2025, 0) fixture_raw = Some fixture_inputs
   \<and> rampFactor 0 (utilisationRampMonths fixture_inputs) = Fin (1 / 2)
   \<and> rampFactor 1 (utilisationRampMonths fixture_inputs) = Fin 1
   \<and> rampFactor 2 (utilisationRampMonths fixture_inputs) = Fin 1
   \<and> (\<exists>out. calculateROI (applyScenario fixture_inputs ''base'') = Some out
        \<and> savingsMonthly (timeline out) ! 0 =
            js_mul (js_div (totalSavingsAnnual out) (Fin 12)) (Fin (1 / 2))
        \<and> is_Fin (cumNetMonthly (timeline out) ! 35))"
proof -
  from ramp_factor_applied [OF fixture_validated [of "(2025, 0)"], where scenario = "''base''"]
  obtain out h r where
    w: "timeHorizonYears fixture_inputs = Fin (real h)"
       "utilisationRampMonths fixture_inputs = Fin (real r)"
       "calculateROI (applyScenario fixture_inputs ''base'') = Some out"
       "\<forall>i. i < h * 12 \<longrightarrow>
            rampFactor i (utilisationRampMonths fixture_inputs) =
              (if i < r then Fin ((real i + 1) / real r) else Fin 1)
            \<and> savingsMonthly (timeline out) ! i =
                js_mul (js_div (totalSavingsAnnual out) (Fin 12))
                       (rampFactor i (utilisationRampMonths fixture_inputs))
            \<and> is_Fin (savingsMonthly (timeline out) ! i)
            \<and> is_Fin (costsMonthly (timeline out) ! i)
            \<and> is_Fin (netMonthly (timeline out) ! i)
            \<and> is_Fin (cumNetMonthly (timeline out) ! i)"
    by blast
  have h: "h = 3" and r: "r = 2" using w(1,2) by (simp_all add: fixture_inputs_def)
  have "0 < h * 12" "1 < h * 12" "2 < h * 12" "35 < h * 12" by (simp_all add: h)
  with w(4) r w(3) fixture_validated [of "(2025, 0)"] show ?thesis
    by (auto simp: fixture_inputs_def)
qed

text \<open>
  Claim C1. For every validated input and every scenario, the payback month of the full
  engine is \<open>calculatePayback\<close> of the cumulative net sequence; it is the smallest
  1-indexed month \<open>i\<close> with \<open>cumNet[i-1] >= 0\<close>; when no month of the horizon has that,
  it is the horizon length \<open>timeHorizonYears * 12\<close>; it is never greater than the horizon
  length.
\<close>

theorem payback_first_month:
  assumes "validated_inputs now raw = Some inputs"
  shows "\<exists>out h. timeHorizonYears inputs = Fin (real h)
      \<and> calculateROI (applyScenario inputs scenario) = Some out
      \<and> paybackMonths out = calculatePayback (cumNetMonthly (timeline out))
      \<and> length (cumNetMonthly (timeline out)) = h * 12
      \<and> paybackMonths out \<le> h * 12
      \<and> ((\<exists>k. k < h * 12 \<and> js_ge (cumNetMonthly (timeline out) ! k) (Fin 0)) \<longrightarrow>
            1 \<le> paybackMonths out
            \<and> js_ge (cumNetMonthly (timeline out) ! (paybackMonths out - 1)) (Fin 0)
            \<and> (\<forall>j. j < paybackMonths out - 1 \<longrightarrow>
                  \<not> js_ge (cumNetMonthly (timeline out) ! j) (Fin 0)))
      \<and> ((\<forall>k. k < h * 12 \<longrightarrow> \<not> js_ge (cumNetMonthly (timeline out) ! k) (Fin 0)) \<longrightarrow>
            paybackMonths out = h * 12)"
proof -
  from engine_on_validated[OF assms, of scenario] obtain out h r where
    e: "timeHorizonYears inputs = Fin (real h)"
       "calculateROI (applyScenario inputs scenario) = Some out"
       "timeline out = horizon_timeline (applyScenario inputs scenario) (h * 12)"
       "paybackMonths out = calculatePayback (cumNetMonthly (timeline out))"
       "utilisationRampMonths inputs = Fin (real r)"
    by blast
  let ?c = "cumNetMonthly (timeline out)"
  have len: "length ?c = h * 12" by (simp add: e(3) horizon_timeline_lengths)
  have p: "paybackMonths out = payback_loop ?c 0" by (simp add: e(4) calculatePayback_def)
  have le: "paybackMonths out \<le> h * 12"
    using payback_loop_le[of 0 ?c] by (simp add: p len)
  have some: "1 \<le> paybackMonths out
            \<and> js_ge (?c ! (paybackMonths out - 1)) (Fin 0)
            \<and> (\<forall>j. j < paybackMonths out - 1 \<longrightarrow> \<not> js_ge (?c ! j) (Fin 0))"
    if "\<exists>k. k < h * 12 \<and> js_ge (?c ! k) (Fin 0)"
  proof -
    from that obtain k where k: "k < length ?c" "js_ge (?c ! k) (Fin 0)" by (auto simp: len)
    from payback_loop_first[OF _ k, of 0] show ?thesis by (simp add: p)
  qed
  have none: "paybackMonths out = h * 12"
    if "\<forall>k. k < h * 12 \<longrightarrow> \<not> js_ge (?c ! k) (Fin 0)"
    using payback_loop_none[of 0 ?c] that by (simp add: p len)
  show ?thesis
    using e(1,2,4) len le some none by blast
qed

section \<open>The reference inputs through the engine\<close>

lemma upt_36: "[0..<36] = [0,1,2,3,4,5,6,7,8,9,10,11,12,13,14,15,16,17,18,19,20,21,22,23,24,25,26,27,28,29,30,31,32,33,34,35]"
  by (simp add: upt_conv_Cons)

lemma fixture_annual: "annualSavings fixture_inputs = Fin fixture_savings"
  by (simp add: annualSavings_def calculateTotalSavings_def calculateFuelSavings_def
      calculateBaselineFuelCost_def calculateAccidentSavings_def calculateInsuranceSavings_def
      fixture_inputs_def fixture_savings_def Let_def)

lemma fixture_costs: "calculateProgramCosts fixture_inputs =
   \<lparr>capexHardware = Fin 17500, opexSubscriptionAnnual = Fin 21000, oneOff = Fin 4000, maintenanceAnnual = Fin 0\<rparr>"
  by (simp add: calculateProgramCosts_def fixture_inputs_def)

lemma fixture_net:
  "netFlowAt fixture_inputs (Fin s)
     \<lparr>capexHardware = Fin 17500, opexSubscriptionAnnual = Fin 21000, oneOff = Fin 4000,
      maintenanceAnnual = Fin 0\<rparr> (Fin 36) i =
     (if i = 0 then Fin (s / 24 - 23250) else Fin (s / 12 - 1750))"
  by (simp add: netFlowAt_def monthlySavings_def monthlyCosts_def rampFactor_def js_sub_def
      js_gt_def fixture_inputs_def Let_def)

lemma fixture_cum:
  "cumNetMonthly (horizon_timeline fixture_inputs 36) =
     running_sum (Fin 0)
       (map (\<lambda>i. if i = 0 then Fin (fixture_savings / 24 - 23250)
                 else Fin (fixture_savings / 12 - 1750))
          [0..<36])"
proof -
  have "netFlowAt fixture_inputs (Fin s)
     \<lparr>capexHardware = Fin 17500, opexSubscriptionAnnual = Fin 21000, oneOff = Fin 4000,
      maintenanceAnnual = Fin 0\<rparr> (Fin 36) =
     (\<lambda>i. if i = 0 then Fin (s / 24 - 23250) else Fin (s / 12 - 1750))" for s
    by (rule ext) (rule fixture_net)
  then show ?thesis
    unfolding horizon_timeline_def Let_def fixture_annual fixture_costs
    by (simp only: Timeline.simps of_nat_numeral)
qed

lemma fixture_payback:
  "calculatePayback (cumNetMonthly (horizon_timeline fixture_inputs 36)) = 9"
  unfolding fixture_cum upt_36 fixture_savings_def
  by (simp add: calculatePayback_def payback_loop.simps js_ge_def)

lemma fixture_timeline:
  "\<exists>out. calculateROI (applyScenario fixture_inputs ''base'') = Some out
      \<and> timeline out = horizon_timeline fixture_inputs 36"
proof -
  have "timeHorizonYears fixture_inputs = Fin (real 3)" by (simp add: fixture_inputs_def)
  from calculateROI_eq[OF this] show ?thesis by (auto simp: applyScenario_eq)
qed

lemma fixture_cum_8:
  "js_ge (cumNetMonthly (horizon_timeline fixture_inputs 36) ! 8) (Fin 0)"
  "\<not> js_ge (cumNetMonthly (horizon_timeline fixture_inputs 36) ! 7) (Fin 0)"
  unfolding fixture_cum upt_36 fixture_savings_def by (simp_all add: js_ge_def)

theorem payback_first_month_witness:
  "validated_inputs (2025, 0) fixture_raw = Some fixture_inputs
   \<and> (\<exists>out. calculateROI (applyScenario fixture_inputs ''base'') = Some out
         \<and> paybackMonths out = 9 \<and> paybackMonths out \<le> 3 * 12
         \<and> js_ge (cumNetMonthly (timeline out) ! 8) (Fin 0)
         \<and> \<not> js_ge (cumNetMonthly (timeline out) ! 7) (Fin 0)
         \<and> \<not> js_ge (cumNetMonthly (timeline out) ! 0) (Fin 0))"
proof -
  from payback_first_month [OF fixture_validated [of "(2025, 0)"], where scenario = "''base''"]
  obtain out h where
    w: "timeHorizonYears fixture_inputs = Fin (real h)"
       "calculateROI (applyScenario fixture_inputs ''base'') = Some out"
       "paybackMonths out = calculatePayback (cumNetMonthly (timeline out))"
       "paybackMonths out \<le> h * 12"
       "(\<exists>k. k < h * 12 \<and> js_ge (cumNetMonthly (timeline out) ! k) (Fin 0)) \<longrightarrow>
            1 \<le> paybackMonths out
            \<and> js_ge (cumNetMonthly (timeline out) ! (paybackMonths out - 1)) (Fin 0)
            \<and> (\<forall>j. j < paybackMonths out - 1 \<longrightarrow>
                  \<not> js_ge (cumNetMonthly (timeline out) ! j) (Fin 0))"
    by blast
  have h: "h = 3" using w(1) by (simp add: fixture_inputs_def)
  from fixture_timeline w(2) have t: "timeline out = horizon_timeline fixture_inputs 36"
    by auto
  have p: "paybackMonths out = 9" by (simp add: w(3) t fixture_payback)
  have "8 < h * 12 \<and> js_ge (cumNetMonthly (timeline out) ! 8) (Fin 0)"
    by (simp add: h t fixture_cum_8)
  then have "\<exists>k. k < h * 12 \<and> js_ge (cumNetMonthly (timeline out) ! k) (Fin 0)" by blast
  with w(5) have
    "js_ge (cumNetMonthly (timeline out) ! (paybackMonths out - 1)) (Fin 0)
     \<and> (\<forall>j. j < paybackMonths out - 1 \<longrightarrow>
            \<not> js_ge (cumNetMonthly (timeline out) ! j) (Fin 0))"
    by blast
  then have "js_ge (cumNetMonthly (timeline out) ! 8) (Fin 0)
     \<and> \<not> js_ge (cumNetMonthly (timeline out) ! 7) (Fin 0)
     \<and> \<not> js_ge (cumNetMonthly (timeline out) ! 0) (Fin 0)"
    by (simp add: p)
  with w(2,4) p h fixture_validated [of "(2025, 0)"] show ?thesis by simp
qed

section \<open>Validation claims\<close>

lemma field_error_not_cross: "field_error raw f \<noteq> Some RampExceedsHorizon"
  by (auto simp: field_error_def validateField_def check_range_def check_allowed_def
      split: if_splits option.splits jsval.splits)

text \<open>
  Claim C7. \<open>validateInputs\<close> always returns. When the coerced utilisation ramp exceeds
  the coerced time horizon times 12, the result is invalid and its error map has the
  cross-field entry under \<open>utilisationRampMonths\<close>; when it does not, that key holds the
  field's own error, if any, and never the cross-field one. Every other key holds the
  field's own error. The result does not depend on the current month: a start month in the
  past only writes a warning to the console.
\<close>

theorem cross_field_rule:
  "\<exists>v console. validateInputs now raw = Inr (v, console)
     \<and> ramp_exceeds raw =
         js_gt (toNumber (get_prop (coercedInputs v) UtilisationRampMonths))
               (js_mul (toNumber (get_prop (coercedInputs v) TimeHorizonYears)) (Fin 12))
     \<and> (ramp_exceeds raw \<longrightarrow>
           \<not> isValid v \<and> errors v UtilisationRampMonths = Some RampExceedsHorizon)
     \<and> (\<not> ramp_exceeds raw \<longrightarrow>
           errors v UtilisationRampMonths = field_error raw UtilisationRampMonths
           \<and> errors v UtilisationRampMonths \<noteq> Some RampExceedsHorizon)
     \<and> (\<forall>f. f \<noteq> UtilisationRampMonths \<longrightarrow> errors v f = field_error raw f)
     \<and> (isValid v \<longleftrightarrow> (\<forall>f. field_error raw f = None) \<and> \<not> ramp_exceeds raw)
     \<and> (\<forall>now'. \<exists>console'. validateInputs now' raw = Inr (v, console'))"
  by (simp add: validateInputs_eq field_error_not_cross ramp_exceeds_def get_prop_def)

lemma coerced_at_upd:
  "coerced_at (raw(g \<mapsto> v)) f =
     (if f = g then coerceValue v (stype (validationSchema g)) else coerced_at raw f)"
  by (simp add: coerced_at_def get_prop_def)

lemma field_error_upd:
  "field_error (raw(g \<mapsto> v)) f =
     (if f = g then validateField g (coerceValue v (stype (validationSchema g))) (validationSchema g)
      else field_error raw f)"
  by (simp add: field_error_def coerced_at_upd)

lemma coerce_int_1: "coerceValue (JStr ''1'') TInteger = JNum (Fin 1)"
  by (simp add: coerceValue_def parse_defs Let_def)

lemma coerce_int_20: "coerceValue (JStr ''20'') TInteger = JNum (Fin 20)"
  by (simp add: coerceValue_def parse_defs Let_def)

lemma ramp_raw_exceeds: "ramp_exceeds ramp_raw"
  by (simp add: ramp_exceeds_def ramp_raw_def coerced_at_upd coerce_int_1 coerce_int_20 js_gt_def)

lemma ramp_raw_field_errors: "field_error ramp_raw f = None"
  by (simp add: ramp_raw_def field_error_upd fixture_errors coerce_int_1 coerce_int_20
      validateField_def check_range_def check_allowed_def js_gt_def)

lemma fixture_console: "console_of (2030, 5) fixture_raw = [past_warning]"
  by (simp add: console_of_def fixture_coerced fixture_inputs_def start_before_def
      stringToNumber_def trim_def parse_defs js_sub_def js_trunc_def Let_def)

lemma fixture_console_future: "console_of (2024, 11) fixture_raw = []"
  by (simp add: console_of_def fixture_coerced fixture_inputs_def start_before_def
      stringToNumber_def trim_def parse_defs js_sub_def js_trunc_def Let_def)

theorem cross_field_rule_witness:
  "(\<exists>v console. validateInputs (2030, 5) ramp_raw = Inr (v, console)
      \<and> ramp_exceeds ramp_raw \<and> field_error ramp_raw UtilisationRampMonths = None
      \<and> \<not> isValid v \<and> errors v UtilisationRampMonths = Some RampExceedsHorizon)
   \<and> (\<exists>v. validateInputs (2030, 5) fixture_raw = Inr (v, [past_warning])
      \<and> validateInputs (2024, 11) fixture_raw = Inr (v, [])
      \<and> \<not> ramp_exceeds fixture_raw \<and> isValid v \<and> errors v UtilisationRampMonths = None)"
proof -
  from cross_field_rule [of "(2030, 5)" ramp_raw] ramp_raw_exceeds ramp_raw_field_errors
  have a: "\<exists>v console. validateInputs (2030, 5) ramp_raw = Inr (v, console)
      \<and> ramp_exceeds ramp_raw \<and> field_error ramp_raw UtilisationRampMonths = None
      \<and> \<not> isValid v \<and> errors v UtilisationRampMonths = Some RampExceedsHorizon"
    by blast
  from cross_field_rule [of "(2030, 5)" fixture_raw] obtain v console where
    v: "validateInputs (2030, 5) fixture_raw = Inr (v, console)"
       "\<not> ramp_exceeds fixture_raw \<longrightarrow>
           errors v UtilisationRampMonths = field_error fixture_raw UtilisationRampMonths
           \<and> errors v UtilisationRampMonths \<noteq> Some RampExceedsHorizon"
       "isValid v \<longleftrightarrow> (\<forall>f. field_error fixture_raw f = None) \<and> \<not> ramp_exceeds fixture_raw"
       "\<forall>now'. \<exists>console'. validateInputs now' fixture_raw = Inr (v, console')"
    by blast
  from v(1) have c: "console = [past_warning]"
    by (simp add: validateInputs_eq fixture_console)
  from v(4) obtain console' where "validateInputs (2024, 11) fixture_raw = Inr (v, console')"
    by blast
  then have c': "validateInputs (2024, 11) fixture_raw = Inr (v, [])"
    by (simp add: validateInputs_eq fixture_console_future)
  from v(1,2,3) c c' fixture_ramp fixture_errors
  have "validateInputs (2030, 5) fixture_raw = Inr (v, [past_warning])
      \<and> validateInputs (2024, 11) fixture_raw = Inr (v, [])
      \<and> \<not> ramp_exceeds fixture_raw \<and> isValid v \<and> errors v UtilisationRampMonths = None"
    by simp
  with a show ?thesis by blast
qed

lemma schema_number_allowed:
  "stype (validationSchema f) = TNumber \<Longrightarrow> allowedValues (validationSchema f) = None"
  by (cases f) simp_all

lemma to_double_not_NaN: "to_double p q \<noteq> NaN"
  by (simp add: to_double_def Let_def)

lemma decimal_to_double_not_NaN: "decimal_to_double m e \<noteq> NaN"
  by (simp add: decimal_to_double_def to_double_not_NaN)

lemma scan_unsigned_not_NaN: "scan_unsigned s = Some (v, rest) \<Longrightarrow> v \<noteq> NaN"
  by (auto simp: scan_unsigned_def Let_def decimal_to_double_not_NaN
      split: if_splits prod.splits)

lemma scan_decimal_not_NaN: "scan_decimal s = Some (v, rest) \<Longrightarrow> v \<noteq> NaN"
proof -
  assume a: "scan_decimal s = Some (v, rest)"
  obtain neg r where sr: "split_sign s = (neg, r)" by (cases "split_sign s")
  from a sr obtain u where u: "scan_unsigned r = Some (u, rest)" "v = (if neg then js_neg u else u)"
    by (auto simp: scan_decimal_def split: option.splits)
  from scan_unsigned_not_NaN[OF u(1)] u(2) show ?thesis by (cases u) auto
qed

lemma parseFloat_NaN_iff:
  "parseFloat_str s = NaN \<longleftrightarrow> scan_decimal (dropWhile is_ws s) = None"
  using scan_decimal_not_NaN[of "dropWhile is_ws s"]
  by (auto simp: parseFloat_str_def split: option.splits)

lemma scan_unsigned_None_iff:
  "scan_unsigned r = None \<longleftrightarrow>
     \<not> (take 8 r = ''Infinity''
        \<or> (case r of
              [] \<Rightarrow> False
            | c # r' \<Rightarrow>
                is_digit c
                \<or> (c = CHR ''.'' \<and> (case r' of [] \<Rightarrow> False | d # r'' \<Rightarrow> is_digit d))))"
proof (cases "take 8 r = ''Infinity''")
  case True
  then show ?thesis by (simp add: scan_unsigned_def)
next
  case False
  show ?thesis
  proof (cases r)
    case Nil
    then show ?thesis by (simp add: scan_unsigned_def scan_fraction_def)
  next
    case (Cons c r')
    show ?thesis
    proof (cases "is_digit c")
      case True
      then show ?thesis
        using False Cons
        by (simp add: scan_unsigned_def Let_def del: take_Cons_numeral split: prod.splits)
    next
      case nd: False
      then have npt: "c = CHR ''.'' \<Longrightarrow> dropWhile is_digit r = r" using Cons by simp
      show ?thesis
      proof (cases "c = CHR ''.''")
        case True
        then show ?thesis
          using False Cons nd
          by (cases r')
             (simp_all add: scan_unsigned_def scan_fraction_def Let_def
                del: take_Cons_numeral split: prod.splits)
      next
        case np: False
        then show ?thesis
          using False Cons nd
          by (simp add: scan_unsigned_def scan_fraction_def Let_def
              del: take_Cons_numeral split: prod.splits)
      qed
    qed
  qed
qed

lemma scan_decimal_None_iff:
  "scan_decimal (dropWhile is_ws t) = None \<longleftrightarrow> \<not> has_numeric_prefix t"
proof -
  obtain neg r where sr: "split_sign (dropWhile is_ws t) = (neg, r)"
    by (cases "split_sign (dropWhile is_ws t)")
  have "scan_decimal (dropWhile is_ws t) = None \<longleftrightarrow> scan_unsigned r = None"
    by (simp add: scan_decimal_def sr split: option.splits)
  then show ?thesis
    by (simp add: scan_unsigned_None_iff has_numeric_prefix_def sr)
qed

lemma has_numeric_prefix_iff: "has_numeric_prefix s \<longleftrightarrow> parseFloat_str s \<noteq> NaN"
  by (simp add: parseFloat_NaN_iff scan_decimal_None_iff)

lemma coerce_number_null_iff:
  "coerceValue (JStr s) TNumber = JNull \<longleftrightarrow> s = [] \<or> \<not> has_numeric_prefix s"
  by (cases "parseFloat_str s") (simp_all add: coerceValue_def Let_def has_numeric_prefix_iff)

lemma digits_prefix:
  assumes "ds \<noteq> []" "list_all is_digit ds"
    and "rest = [] \<or> hd rest \<notin> set ''0123456789.eE''"
  shows "parseFloat_str (ds @ rest) = to_double (digits_val ds) 1"
proof -
  from assms(1) obtain d ds' where ds: "ds = d # ds'" by (cases ds) auto
  with assms(2) have d: "is_digit d" by simp
  then have nws: "\<not> is_ws d" and nsign: "d \<noteq> CHR ''-''" "d \<noteq> CHR ''+''" and nI: "d \<noteq> CHR ''I''"
    by (auto simp: is_digit_def is_ws_def)
  have nd: "rest = [] \<or> \<not> is_digit (hd rest)" using assms(3) by (auto simp: is_digit_def)
  have tw: "takeWhile is_digit (ds @ rest) = ds"
    using assms(2) nd by (cases rest) (auto simp: list_all_iff takeWhile_append2)
  have dw: "dropWhile is_digit (ds @ rest) = rest"
    using assms(2) nd by (cases rest) (auto simp: list_all_iff dropWhile_append2)
  have fr: "scan_fraction rest = ([], rest)"
    using assms(3) by (cases rest) (auto simp: scan_fraction_def)
  have ex: "scan_exponent rest = (0, rest)"
    using assms(3) by (cases rest) (auto simp: scan_exponent_def)
  have inf: "take 8 (ds @ rest) \<noteq> ''Infinity''"
    using nI by (simp add: ds)
  have "scan_unsigned (ds @ rest) = Some (to_double (digits_val ds) 1, rest)"
    using assms(1) inf
    by (simp add: scan_unsigned_def tw dw fr ex decimal_to_double_def Let_def
        del: take_append)
  moreover have "split_sign (ds @ rest) = (False, ds @ rest)"
    using nsign by (simp add: split_sign_def ds)
  moreover have "dropWhile is_ws (ds @ rest) = ds @ rest"
    using nws by (simp add: ds)
  ultimately show ?thesis
    by (simp add: parseFloat_str_def scan_decimal_def)
qed

text \<open>
  Claim C10. For a number-typed field whose raw value is a string, when the number that
  \<open>parseFloat\<close> reads from the front of the string (rounded to the nearest double, as
  \<open>parseFloat\<close> does) is within the bounds of the field, \<open>validateInputs\<close> reports no error
  for the field and the coerced record holds that number. Coercion of a string to a number
  is \<open>null\<close> only for the empty string and for a string that does not begin with a number;
  characters after a run of digits that cannot continue a number are dropped.
\<close>

theorem number_prefix_accepted:
  assumes "stype (validationSchema f) = TNumber"
    and "get_prop raw f = JStr s"
    and "parseFloat_str s = Fin x"
    and "smin (validationSchema f) = Some lo" and "smax (validationSchema f) = Some hi"
    and "lo \<le> x" and "x \<le> hi"
  shows "(\<exists>v console. validateInputs now raw = Inr (v, console)
            \<and> errors v f = None \<and> coercedInputs v f = Some (JNum (Fin x)))
       \<and> (\<forall>t. coerceValue (JStr t) TNumber = JNull \<longleftrightarrow> t = [] \<or> \<not> has_numeric_prefix t)
       \<and> (\<forall>t. t \<noteq> [] \<and> has_numeric_prefix t \<longrightarrow>
              coerceValue (JStr t) TNumber = JNum (parseFloat_str t))
       \<and> (\<forall>ds rest. ds \<noteq> [] \<and> list_all is_digit ds
              \<and> (rest = [] \<or> hd rest \<notin> set ''0123456789.eE'') \<longrightarrow>
              parseFloat_str (ds @ rest) = to_double (digits_val ds) 1
              \<and> parseFloat_str (ds @ rest) = parseFloat_str ds)"
proof -
  have ne: "s \<noteq> []" using assms(3) by (auto simp: parseFloat_str_def scan_decimal_def
        scan_unsigned_def split_sign_def scan_fraction_def)
  have c: "coerced_at raw f = JNum (Fin x)"
    by (simp add: coerced_at_def assms(1,2,3) coerceValue_def ne)
  have e: "field_error raw f = None"
    using assms(6,7)
    by (auto simp: field_error_def c validateField_def assms(1,4,5) check_range_def
        check_allowed_def schema_number_allowed js_gt_def)
  have nr: "f \<noteq> UtilisationRampMonths" using assms(1) by auto
  have 1: "\<exists>v console. validateInputs now raw = Inr (v, console)
            \<and> errors v f = None \<and> coercedInputs v f = Some (JNum (Fin x))"
    by (simp add: validateInputs_eq c e nr)
  have 3: "coerceValue (JStr t) TNumber = JNum (parseFloat_str t)"
    if "t \<noteq> [] \<and> has_numeric_prefix t" for t
    using that
    by (cases "parseFloat_str t") (simp_all add: coerceValue_def Let_def has_numeric_prefix_iff)
  have 4: "parseFloat_str (ds @ rest) = to_double (digits_val ds) 1
           \<and> parseFloat_str (ds @ rest) = parseFloat_str ds"
    if "ds \<noteq> [] \<and> list_all is_digit ds \<and> (rest = [] \<or> hd rest \<notin> set ''0123456789.eE'')"
    for ds rest
    using that digits_prefix[of ds rest] digits_prefix[of ds "[]"] by simp
  from 1 3 4 show ?thesis
    using coerce_number_null_iff by blast
qed

lemma nbsp_number: "parseFloat_str [CHR 0xA0, CHR ''5''] = Fin 5"
  by (simp add: parse_defs)

lemma rounded_scan:
  "scan_unsigned ''50.000000000000001''
   = Some (decimal_to_double 50000000000000001 (- 15), [])"
  by (simp add: scan_unsigned_def scan_fraction_def scan_exponent_def is_digit_def
      digits_val_def digit_val_def Let_def)

lemma rounded_double: "decimal_to_double 50000000000000001 (- 15) = Fin 50"
  by (simp add: decimal_to_double_def to_double_def nearest_multiple_def
      binary_exponent_def round_half_even_def bits.simps Let_def)

lemma rounded_number: "parseFloat_str ''50.000000000000001'' = Fin 50"
  by (simp add: parseFloat_str_def scan_decimal_def split_sign_def is_ws_def
      rounded_scan rounded_double)

theorem number_prefix_accepted_witness:
  "stype (validationSchema BaselineAccidentsPerYear) = TNumber
   \<and> get_prop abc_raw BaselineAccidentsPerYear = JStr ''12abc''
   \<and> parseFloat_str ''12abc'' = Fin 12
   \<and> smin (validationSchema BaselineAccidentsPerYear) = Some 0
   \<and> smax (validationSchema BaselineAccidentsPerYear) = Some 1000
   \<and> (\<exists>v console. validateInputs (2025, 0) abc_raw = Inr (v, console)
         \<and> errors v BaselineAccidentsPerYear = None
         \<and> coercedInputs v BaselineAccidentsPerYear = Some (JNum (Fin 12)))
   \<and> parseFloat_str ''50.000000000000001'' = Fin 50
   \<and> smax (validationSchema FuelSavingsPct) = Some 50
   \<and> (\<exists>v console. validateInputs (2025, 0) round_raw = Inr (v, console)
         \<and> errors v FuelSavingsPct = None
         \<and> coercedInputs v FuelSavingsPct = Some (JNum (Fin 50)))
   \<and> coerceValue (JStr ''abc'') TNumber = JNull
   \<and> coerceValue (JStr [CHR 0xA0, CHR ''5'']) TNumber = JNum (Fin 5)"
proof -
  have p: "parseFloat_str ''12abc'' = Fin 12" by (simp add: parse_defs)
  have g: "get_prop abc_raw BaselineAccidentsPerYear = JStr ''12abc''"
    by (simp add: abc_raw_def get_prop_def)
  have g': "get_prop round_raw FuelSavingsPct = JStr ''50.000000000000001''"
    by (simp add: round_raw_def get_prop_def)
  have n: "coerceValue (JStr ''abc'') TNumber = JNull"
    by (simp add: coerceValue_def parse_defs)
  have b: "coerceValue (JStr [CHR 0xA0, CHR ''5'']) TNumber = JNum (Fin 5)"
    by (simp add: coerceValue_def nbsp_number)
  from number_prefix_accepted [of BaselineAccidentsPerYear abc_raw "''12abc''" 12 0 1000 "(2025, 0)"]
    number_prefix_accepted [of FuelSavingsPct round_raw "''50.000000000000001''" 50 0 50 "(2025, 0)"]
    p g g' n b rounded_number
  show ?thesis by simp
qed

text \<open>The checks of \<open>validateField\<close> in their order, at the bounds of \<open>vehicleCount\<close>.\<close>

lemma validateField_check_order:
  "validateField f JNull sch = Some (Required f)"
  "validateField f (JStr []) sch = Some (Required f)"
  "validateField VehicleCount (JNum (Fin 0.5)) (validationSchema VehicleCount)
     = Some (NotWhole VehicleCount)"
  "validateField VehicleCount (JNum (Fin 0)) (validationSchema VehicleCount)
     = Some (AtLeast VehicleCount 1)"
  "validateField VehicleCount (JNum (Fin 10001)) (validationSchema VehicleCount)
     = Some (AtMost VehicleCount 10000)"
  "validateField VehicleCount (JNum (Fin 1)) (validationSchema VehicleCount) = None"
  "validateField VehicleCount (JNum (Fin 10000)) (validationSchema VehicleCount) = None"
  "validateField Currency (JStr ''CHF'') (validationSchema Currency)
     = Some (NotOneOf Currency [''EUR'', ''USD'', ''GBP''])"
  by (simp_all add: validateField_def check_range_def check_allowed_def js_gt_def)

lemmas print_defs = positiveToString_def with_point_def nat_digits.simps frac_digits.simps
  leading_zeros.simps

lemma round_half_even_1: "round_half_even n (Suc 0) = n"
  by (simp add: round_half_even_def)

lemma nearest_multiple_whole: "\<exists>k. nearest_multiple p 1 t = real_of_int k"
proof (cases "0 \<le> t")
  case True
  have "nearest_multiple p 1 t = real_of_int (int (round_half_even p (2 ^ nat t) * 2 ^ nat t))"
    using True by (simp add: nearest_multiple_def)
  then show ?thesis by blast
next
  case False
  have "real (p * 2 ^ nat (- t)) / 2 ^ nat (- t) = real p" by simp
  then have "nearest_multiple p 1 t = real_of_int (int p)"
    using False by (simp add: nearest_multiple_def round_half_even_1)
  then show ?thesis by blast
qed

lemma to_double_whole: "to_double p 1 = PosInf \<or> js_isInteger (to_double p 1)"
proof -
  obtain k where "nearest_multiple p 1 (max (binary_exponent p 1) (- 1022) - 52) = real_of_int k"
    using nearest_multiple_whole by blast
  then show ?thesis by (simp add: to_double_def Let_def)
qed

lemma js_isInteger_neg: "js_isInteger n \<Longrightarrow> js_isInteger (js_neg n)"
proof (cases n)
  case (Fin a)
  assume "js_isInteger n"
  with Fin obtain k where "a = real_of_int k" by auto
  then have "- a = real_of_int (- k)" by simp
  then have "\<exists>j. - a = real_of_int j" by blast
  with Fin show ?thesis by simp
qed simp_all

text \<open>
  \<open>parseInt\<close> gives a whole number, or an infinity when the run of digits is beyond the
  doubles; the whole-number check of \<open>validateField\<close> fires from \<open>validateInputs\<close> only in
  that case.
\<close>

lemma parseInt_integer:
  "parseInt_str t = NaN \<or> parseInt_str t = PosInf \<or> parseInt_str t = NegInf
   \<or> js_isInteger (parseInt_str t)"
proof -
  obtain neg r where sr: "split_sign (dropWhile is_ws t) = (neg, r)"
    by (cases "split_sign (dropWhile is_ws t)")
  show ?thesis
    using to_double_whole[of "digits_val (takeWhile is_digit r)"]
      js_isInteger_neg[of "to_double (digits_val (takeWhile is_digit r)) 1"]
    by (auto simp: parseInt_str_def sr Let_def)
qed

lemma not_whole_only_overflow:
  assumes "field_error raw f = Some (NotWhole g)"
  shows "coerced_at raw f = JNum PosInf \<or> coerced_at raw f = JNum NegInf"
proof (cases "stype (validationSchema f) = TInteger")
  case False
  with assms show ?thesis
    by (auto simp: field_error_def validateField_def check_range_def check_allowed_def
        split: if_splits option.splits jsval.splits)
next
  case True
  have "coerced_at raw f = JNull \<or> coerced_at raw f = JNum PosInf
        \<or> coerced_at raw f = JNum NegInf \<or> isIntegerVal (coerced_at raw f)"
    using parseInt_integer[of "toString (get_prop raw f)"]
    by (auto simp: coerced_at_def True coerceValue_def Let_def)
  with assms show ?thesis
    by (auto simp: field_error_def validateField_def check_range_def check_allowed_def
        split: if_splits option.splits jsval.splits)
qed

text \<open>
  Claim C6, at the string \<open>3.7\<close> for \<open>vehicleCount\<close>: \<open>parseInt\<close> makes it 3 before
  \<open>validateField\<close> sees it, so the record is valid, there is no error for the field and
  the coerced value is 3. \<open>validateField\<close> itself does reject the number 3.7 as not whole.
\<close>

theorem integer_field_accepts_fraction:
  "coerceValue (JStr ''3.7'') TInteger = JNum (Fin 3)
   \<and> coerceValue (JNum (Fin 3.7)) TInteger = JNum (Fin 3)
   \<and> validateField VehicleCount (JNum (Fin 3.7)) (validationSchema VehicleCount)
       = Some (NotWhole VehicleCount)
   \<and> (\<exists>v console. validateInputs (2025, 0) frac_raw = Inr (v, console)
         \<and> isValid v \<and> errors v VehicleCount = None
         \<and> coercedInputs v VehicleCount = Some (JNum (Fin 3)))"
proof -
  have a: "coerceValue (JStr ''3.7'') TInteger = JNum (Fin 3)"
    by (simp add: coerceValue_def parse_defs Let_def)
  have b: "coerceValue (JNum (Fin 3.7)) TInteger = JNum (Fin 3)"
    by (simp add: coerceValue_def parse_defs print_defs Let_def)
  have c: "validateField VehicleCount (JNum (Fin 3.7)) (validationSchema VehicleCount)
       = Some (NotWhole VehicleCount)"
    by (simp add: validateField_def)
  have e: "field_error frac_raw f = None" for f
    by (simp add: frac_raw_def field_error_upd fixture_errors a validateField_def
        check_range_def check_allowed_def js_gt_def)
  have r: "\<not> ramp_exceeds frac_raw"
    using fixture_ramp by (simp add: frac_raw_def ramp_exceeds_def coerced_at_upd)
  have "\<exists>v console. validateInputs (2025, 0) frac_raw = Inr (v, console)
         \<and> isValid v \<and> errors v VehicleCount = None
         \<and> coercedInputs v VehicleCount = Some (JNum (Fin 3))"
    by (simp add: validateInputs_eq e r) (simp add: frac_raw_def coerced_at_upd a)
  with a b c show ?thesis by blast
qed

lemma max_coerced: "coerced_at max_raw f = field_value max_inputs f"
  by (cases f)
     (simp_all add: max_raw_def coerced_at_upd fixture_coerced max_inputs_def coerceValue_def
        parse_defs Let_def)

lemma max_validated: "validated_inputs now max_raw = Some max_inputs"
proof -
  have e: "field_error max_raw f = None" for f
    by (simp add: max_raw_def field_error_upd fixture_errors coerceValue_def parse_defs Let_def
        validateField_def check_range_def check_allowed_def js_gt_def)
  have r: "\<not> ramp_exceeds max_raw"
    using fixture_ramp by (simp add: max_raw_def ramp_exceeds_def coerced_at_upd)
  show ?thesis
    by (simp add: validated_inputs_def validateInputs_eq e r max_coerced asInputs_toObject)
qed

text \<open>
  Claim C9. The reference record with \<open>fuelSavingsPct = 50\<close> is accepted by
  \<open>validateInputs\<close>; \<open>applyScenario\<close> with \<open>aggressive\<close> turns the field into 62.5, and
  \<open>validateInputs\<close> rejects the adjusted record with the error that the field must be at
  most 50. The three fields are multiplied for every input: nothing is clamped.
\<close>

theorem scenario_breaks_validation:
  "validated_inputs now max_raw = Some max_inputs
   \<and> fuelSavingsPct max_inputs = Fin 50
   \<and> fuelSavingsPct (applyScenario max_inputs ''aggressive'') = Fin 62.5
   \<and> (\<exists>v console.
         validateInputs now (toObject (applyScenario max_inputs ''aggressive'')) = Inr (v, console)
         \<and> \<not> isValid v
         \<and> coercedInputs v FuelSavingsPct = Some (JNum (Fin 62.5))
         \<and> errors v FuelSavingsPct = Some (AtMost FuelSavingsPct 50))
   \<and> validated_inputs now (toObject (applyScenario max_inputs ''aggressive'')) = None
   \<and> (\<forall>inputs. fuelSavingsPct (applyScenario inputs ''aggressive'')
                  = js_mul (fuelSavingsPct inputs) (Fin 1.25)
               \<and> accidentReductionPct (applyScenario inputs ''aggressive'')
                  = js_mul (accidentReductionPct inputs) (Fin 1.25)
               \<and> insuranceReductionPct (applyScenario inputs ''aggressive'')
                  = js_mul (insuranceReductionPct inputs) (Fin 1.25))"
proof -
  let ?obj = "toObject (applyScenario max_inputs ''aggressive'')"
  have f: "fuelSavingsPct (applyScenario max_inputs ''aggressive'') = Fin 62.5"
    by (simp add: applyScenario_eq scale3_def max_inputs_def fixture_inputs_def)
  have c: "coerced_at ?obj FuelSavingsPct = JNum (Fin 62.5)"
    by (simp add: coerced_at_def get_prop_def toObject_def f coerceValue_def parse_defs
        print_defs Let_def)
  have e: "field_error ?obj FuelSavingsPct = Some (AtMost FuelSavingsPct 50)"
    by (simp add: field_error_def c validateField_def check_range_def js_gt_def)
  then have ne: "\<not> (\<forall>f. field_error ?obj f = None)" by (metis option.distinct(1))
  have v: "\<exists>v console. validateInputs now ?obj = Inr (v, console)
         \<and> \<not> isValid v
         \<and> coercedInputs v FuelSavingsPct = Some (JNum (Fin 62.5))
         \<and> errors v FuelSavingsPct = Some (AtMost FuelSavingsPct 50)"
    using ne by (simp add: validateInputs_eq c e)
  have n: "validated_inputs now ?obj = None"
    using e by (auto simp: validated_inputs_def validateInputs_eq)
  have g: "fuelSavingsPct (applyScenario inputs ''aggressive'')
                  = js_mul (fuelSavingsPct inputs) (Fin 1.25)
               \<and> accidentReductionPct (applyScenario inputs ''aggressive'')
                  = js_mul (accidentReductionPct inputs) (Fin 1.25)
               \<and> insuranceReductionPct (applyScenario inputs ''aggressive'')
                  = js_mul (insuranceReductionPct inputs) (Fin 1.25)" for inputs
    by (simp add: applyScenario_eq scale3_def)
  have m: "fuelSavingsPct max_inputs = Fin 50" by (simp add: max_inputs_def)
  from max_validated f v n g m show ?thesis by blast
qed

section \<open>The simplified engines at degenerate inputs\<close>

lemma calculateROI_roi:
  assumes "timeHorizonYears I = Fin (real h)"
  shows "\<exists>out. calculateROI I = Some out
           \<and> roiSimplePct out =
               calculateSimpleROI (js_mul (annualSavings I) (timeHorizonYears I))
                 (totalCostsOf (calculateProgramCosts I) (timeHorizonYears I))"
  using calculateTimeline_eq[OF assms]
  by (simp add: calculateROI_def Let_def annualSavings_def CalculationOutputs.defs
      ProgramCosts.defs)

lemma simple_roi_guarded:
  "calculateSimpleROI totalSavings (Fin 0) = Fin 0"
  "c \<noteq> 0 \<Longrightarrow> calculateSimpleROI (Fin s) (Fin c) = Fin ((s - c) / c * 100)"
  by (simp_all add: calculateSimpleROI_def js_sub_def)

lemmas simple_defs = simple_calculateROI_def backup_calculate_def lean_calculate_def Let_def
  js_sub_def js_gt_def

text \<open>
  Claim C2, at inputs whose costs are all zero: the three simplified engines divide by the
  zero total cost and return \<open>Infinity\<close>, or \<open>NaN\<close> when the savings are zero too. The full
  engine returns 0 at the same inputs.
\<close>

theorem simple_roi_unguarded:
  "s_roiSimplePct (simple_calculateROI zero_cost_inputs) = PosInf
   \<and> s_roiSimplePct (backup_calculate zero_cost_inputs) = PosInf
   \<and> l_roiSimplePct (lean_calculate zero_cost_inputs) = PosInf
   \<and> s_roiSimplePct (simple_calculateROI nothing_inputs) = NaN
   \<and> s_roiSimplePct (backup_calculate nothing_inputs) = NaN
   \<and> l_roiSimplePct (lean_calculate nothing_inputs) = NaN
   \<and> totalCostsOf (calculateProgramCosts zero_cost_inputs) (timeHorizonYears zero_cost_inputs)
       = Fin 0
   \<and> (\<exists>out. calculateROI zero_cost_inputs = Some out \<and> roiSimplePct out = Fin 0)
   \<and> (\<exists>out. calculateROI nothing_inputs = Some out \<and> roiSimplePct out = Fin 0)"
proof -
  have 1: "s_roiSimplePct (simple_calculateROI zero_cost_inputs) = PosInf"
    by (simp add: simple_defs zero_cost_inputs_def fixture_inputs_def)
  have 2: "s_roiSimplePct (backup_calculate zero_cost_inputs) = PosInf"
    by (simp add: simple_defs zero_cost_inputs_def fixture_inputs_def)
  have 3: "l_roiSimplePct (lean_calculate zero_cost_inputs) = PosInf"
    by (simp add: simple_defs zero_cost_inputs_def fixture_inputs_def)
  have 4: "s_roiSimplePct (simple_calculateROI nothing_inputs) = NaN"
    by (simp add: simple_defs nothing_inputs_def zero_cost_inputs_def fixture_inputs_def)
  have 5: "s_roiSimplePct (backup_calculate nothing_inputs) = NaN"
    by (simp add: simple_defs nothing_inputs_def zero_cost_inputs_def fixture_inputs_def)
  have 6: "l_roiSimplePct (lean_calculate nothing_inputs) = NaN"
    by (simp add: simple_defs nothing_inputs_def zero_cost_inputs_def fixture_inputs_def)
  have 7: "totalCostsOf (calculateProgramCosts zero_cost_inputs)
             (timeHorizonYears zero_cost_inputs) = Fin 0"
    by (simp add: totalCostsOf_def calculateProgramCosts_def zero_cost_inputs_def
        fixture_inputs_def)
  have 10: "totalCostsOf (calculateProgramCosts nothing_inputs)
             (timeHorizonYears nothing_inputs) = Fin 0"
    by (simp add: totalCostsOf_def calculateProgramCosts_def nothing_inputs_def
        zero_cost_inputs_def fixture_inputs_def)
  have h: "timeHorizonYears zero_cost_inputs = Fin (real 3)"
          "timeHorizonYears nothing_inputs = Fin (real 3)"
    by (simp_all add: nothing_inputs_def zero_cost_inputs_def fixture_inputs_def)
  have 8: "\<exists>out. calculateROI zero_cost_inputs = Some out \<and> roiSimplePct out = Fin 0"
    using calculateROI_roi[OF h(1)] by (simp add: 7 simple_roi_guarded(1))
  have 9: "\<exists>out. calculateROI nothing_inputs = Some out \<and> roiSimplePct out = Fin 0"
    using calculateROI_roi[OF h(2)] by (simp add: 10 simple_roi_guarded(1))
  from 1 2 3 4 5 6 7 8 9 show ?thesis by blast
qed

text \<open>
  Claim C5, at inputs with no savings: the net monthly saving is negative and the engines of
  simple-formulas.js and of the older simple-calc.js return a payback of -12 months, and
  \<open>Infinity\<close> when the net monthly saving is zero. The current simple-calc.js returns
  \<open>null\<close> in both cases.
\<close>

theorem simple_payback_unguarded:
  "s_paybackMonths (simple_calculateROI no_savings_inputs) = Fin (- 12)
   \<and> s_paybackMonths (backup_calculate no_savings_inputs) = Fin (- 12)
   \<and> l_paybackMonths (lean_calculate no_savings_inputs) = None
   \<and> s_paybackMonths (simple_calculateROI break_even_inputs) = PosInf
   \<and> s_paybackMonths (backup_calculate break_even_inputs) = PosInf
   \<and> l_paybackMonths (lean_calculate break_even_inputs) = None
   \<and> s_paybackMonths (simple_calculateROI fixture_inputs) = Fin 8
   \<and> l_paybackMonths (lean_calculate fixture_inputs) = Some (Fin 2)"
proof -
  have 1: "s_paybackMonths (simple_calculateROI no_savings_inputs) = Fin (- 12)"
    by (simp add: simple_defs no_savings_inputs_def fixture_inputs_def)
  have 2: "s_paybackMonths (backup_calculate no_savings_inputs) = Fin (- 12)"
    by (simp add: simple_defs no_savings_inputs_def fixture_inputs_def)
  have 3: "l_paybackMonths (lean_calculate no_savings_inputs) = None"
    by (simp add: simple_defs no_savings_inputs_def fixture_inputs_def)
  have 4: "s_paybackMonths (simple_calculateROI break_even_inputs) = PosInf"
    by (simp add: simple_defs break_even_inputs_def no_savings_inputs_def fixture_inputs_def)
  have 5: "s_paybackMonths (backup_calculate break_even_inputs) = PosInf"
    by (simp add: simple_defs break_even_inputs_def no_savings_inputs_def fixture_inputs_def)
  have 6: "l_paybackMonths (lean_calculate break_even_inputs) = None"
    by (simp add: simple_defs break_even_inputs_def no_savings_inputs_def fixture_inputs_def)
  have 7: "s_paybackMonths (simple_calculateROI fixture_inputs) = Fin 8"
    by (simp add: simple_defs fixture_inputs_def)
  have 8: "l_paybackMonths (lean_calculate fixture_inputs) = Some (Fin 2)"
    by (simp add: simple_defs fixture_inputs_def)
  from 1 2 3 4 5 6 7 8 show ?thesis by blast
qed

end
